theory Spec2Isabelle
  imports Complex_Main
begin

section \<open>Email-authentication posture analysis: a shallow embedding\<close>

text \<open>
  The development follows the JavaScript sources file by file:
  \<^verbatim>\<open>utils/rateLimit.js\<close>, \<^verbatim>\<open>services/mxService.js\<close>, \<^verbatim>\<open>services/dkimService.js\<close>,
  \<^verbatim>\<open>services/spfService.js\<close> and \<^verbatim>\<open>services/emailSecurityService.js\<close>. Line numbers are
  those of the source tree at hand, where the text of \<^verbatim>\<open>dkimService.js\<close> follows that of
  \<^verbatim>\<open>mxService.js\<close> in one file (from line 134 on) and \<^verbatim>\<open>spfService.js\<close> is the file
  \<^verbatim>\<open>unnamed/part_000\<close>. \<^verbatim>\<open>services/dmarcService.js\<close> is not part of the tree: the DMARC
  analyzer is known only by the report it settles to.

  Conventions of the embedding.
  \<^item> A JavaScript string is a \<^typ>\<open>string\<close>: DNS record text has one code unit below 256
    per byte, and \<^verbatim>\<open>toLowerCase\<close> and the regular-expression class \<^verbatim>\<open>\s\<close> are modelled on
    these code units.
  \<^item> A JavaScript number that carries a score is a \<^typ>\<open>real\<close> (exact arithmetic);
    counters and timestamps are \<^typ>\<open>int\<close> or \<^typ>\<open>nat\<close>.
  \<^item> An optional object property is an \<^typ>\<open>'a option\<close>; \<^verbatim>\<open>undefined\<close> is \<^term>\<open>None\<close>.
  \<^item> Every network call (DNS resolution, the mailauth library) is an input of the
    function that awaits it: its outcome is passed in as a value, a rejection as \<^term>\<open>Inl\<close>.
\<close>

subsection \<open>utils/rateLimit.js\<close>

text \<open>One ledger entry: \<^verbatim>\<open>{ count, resetTime }\<close>.\<close>

record userData =
  count :: int
  resetTime :: int

text \<open>The module-level \<^verbatim>\<open>rateLimitStore = new Map()\<close>, passed explicitly.\<close>

type_synonym rateLimitStore = "string \<rightharpoonup> userData"

text \<open>The parts of an Express request that \<^verbatim>\<open>checkRateLimit\<close> reads.\<close>

record request =
  ip :: "string option"
  connection_remoteAddress :: "string option"
  socket_remoteAddress :: "string option"

text \<open>
  The two shapes \<^verbatim>\<open>checkRateLimit\<close> returns:
  \<^verbatim>\<open>{ allowed: true, remaining }\<close> and \<^verbatim>\<open>{ allowed: false, error, resetTime }\<close>.
\<close>

datatype admission =
  Admitted (remaining : int)
| Refused (refusal : string) (refusedUntil : int)

definition allowed :: "admission \<Rightarrow> bool" where
  "allowed a = (case a of Admitted _ \<Rightarrow> True | Refused _ _ \<Rightarrow> False)"

text \<open>JavaScript \<^verbatim>\<open>a || b\<close> on optional strings: the empty string and \<^verbatim>\<open>undefined\<close> are falsy.\<close>

definition orElse :: "string option \<Rightarrow> string option \<Rightarrow> string option" where
  "orElse a b = (case a of None \<Rightarrow> b | Some s \<Rightarrow> if s = [] then b else Some s)"

definition clientIp :: "request \<Rightarrow> string" where
  "clientIp req =
     (case orElse (orElse (orElse (ip req) (connection_remoteAddress req))
                    (socket_remoteAddress req)) (Some ''unknown'') of
        None \<Rightarrow> [] | Some a \<Rightarrow> a)"

definition limit :: int where
  "limit = 10"

definition window :: int where
  "window = 60 * 1000"

text \<open>\<^verbatim>\<open>checkRateLimit(req)\<close>; \<open>now\<close> is the value of \<^verbatim>\<open>Date.now()\<close> at the call.\<close>

definition checkRateLimit ::
  "request \<Rightarrow> int \<Rightarrow> rateLimitStore \<Rightarrow> admission \<times> rateLimitStore" where
  "checkRateLimit req now store =
     (let a = clientIp req in
      case store a of
        None \<Rightarrow>
          (Admitted (limit - 1), store(a \<mapsto> \<lparr>count = 1, resetTime = now + window\<rparr>))
      | Some u \<Rightarrow>
          if now > resetTime u then
            (Admitted (limit - 1), store(a \<mapsto> u\<lparr>count := 1, resetTime := now + window\<rparr>))
          else if count u \<ge> limit then
            (Refused ''Too many requests. Please try again later.'' (resetTime u), store)
          else
            (Admitted (limit - (count u + 1)), store(a \<mapsto> u\<lparr>count := count u + 1\<rparr>)))"

text \<open>The periodic sweep of \<^verbatim>\<open>setInterval\<close>: entries whose window has passed are deleted.\<close>

definition sweep :: "int \<Rightarrow> rateLimitStore \<Rightarrow> rateLimitStore" where
  "sweep now store =
     (\<lambda>a. case store a of
            None \<Rightarrow> None
          | Some u \<Rightarrow> if now > resetTime u then None else Some u)"

text \<open>A sequence of calls by one request source, at the given clock readings.\<close>

fun checkAll ::
  "request \<Rightarrow> int list \<Rightarrow> rateLimitStore \<Rightarrow> admission list \<times> rateLimitStore" where
  "checkAll req [] store = ([], store)"
| "checkAll req (t # ts) store =
     (let (r, store') = checkRateLimit req t store;
          (rs, store'') = checkAll req ts store'
      in (r # rs, store''))"

text \<open>A caller starts a fresh window when it has no entry or its entry has expired.\<close>

definition freshAt :: "rateLimitStore \<Rightarrow> string \<Rightarrow> int \<Rightarrow> bool" where
  "freshAt store a now =
     (case store a of None \<Rightarrow> True | Some u \<Rightarrow> now > resetTime u)"

subsection \<open>JavaScript strings and numbers\<close>

text \<open>\<^verbatim>\<open>s.startsWith(t)\<close> and \<^verbatim>\<open>s.includes(t)\<close>.\<close>

fun startsWith :: "string \<Rightarrow> string \<Rightarrow> bool" where
  "startsWith s [] = True"
| "startsWith [] (p # ps) = False"
| "startsWith (c # cs) (p # ps) = (c = p \<and> startsWith cs ps)"

fun jsIncludes :: "string \<Rightarrow> string \<Rightarrow> bool" where
  "jsIncludes [] t = (t = [])"
| "jsIncludes (c # cs) t = (startsWith (c # cs) t \<or> jsIncludes cs t)"

text \<open>
  \<^verbatim>\<open>s.toLowerCase()\<close> on code units below 256: the letters A to Z, and the Latin-1 capitals
  U+00C0 to U+00DE without the multiplication sign U+00D7, move up by 32.
\<close>

definition toLowerChar :: "char \<Rightarrow> char" where
  "toLowerChar c =
     (case map_of
        (zip (''ABCDEFGHIJKLMNOPQRSTUVWXYZ'' @
              [CHR 0xC0, CHR 0xC1, CHR 0xC2, CHR 0xC3, CHR 0xC4, CHR 0xC5, CHR 0xC6, CHR 0xC7,
               CHR 0xC8, CHR 0xC9, CHR 0xCA, CHR 0xCB, CHR 0xCC, CHR 0xCD, CHR 0xCE, CHR 0xCF,
               CHR 0xD0, CHR 0xD1, CHR 0xD2, CHR 0xD3, CHR 0xD4, CHR 0xD5, CHR 0xD6,
               CHR 0xD8, CHR 0xD9, CHR 0xDA, CHR 0xDB, CHR 0xDC, CHR 0xDD, CHR 0xDE])
             (''abcdefghijklmnopqrstuvwxyz'' @
              [CHR 0xE0, CHR 0xE1, CHR 0xE2, CHR 0xE3, CHR 0xE4, CHR 0xE5, CHR 0xE6, CHR 0xE7,
               CHR 0xE8, CHR 0xE9, CHR 0xEA, CHR 0xEB, CHR 0xEC, CHR 0xED, CHR 0xEE, CHR 0xEF,
               CHR 0xF0, CHR 0xF1, CHR 0xF2, CHR 0xF3, CHR 0xF4, CHR 0xF5, CHR 0xF6,
               CHR 0xF8, CHR 0xF9, CHR 0xFA, CHR 0xFB, CHR 0xFC, CHR 0xFD, CHR 0xFE])) c of
        None \<Rightarrow> c | Some l \<Rightarrow> l)"

definition toLowerCase :: "string \<Rightarrow> string" where
  "toLowerCase s = map toLowerChar s"

text \<open>\<^verbatim>\<open>s.split(c)\<close> for a one-character separator: never empty, \<^verbatim>\<open>"".split(c)\<close> is \<^verbatim>\<open>[""]\<close>.\<close>

fun splitOn :: "char \<Rightarrow> string \<Rightarrow> string list" where
  "splitOn c [] = [[]]"
| "splitOn c (x # xs) =
     (if x = c then [] # splitOn c xs
      else (case splitOn c xs of [] \<Rightarrow> [[x]] | w # ws \<Rightarrow> (x # w) # ws))"

text \<open>\<^verbatim>\<open>xs[i]\<close> on an array: \<^verbatim>\<open>undefined\<close> out of range.\<close>

definition atIndex :: "'a list \<Rightarrow> nat \<Rightarrow> 'a option" where
  "atIndex xs i = (if i < length xs then Some (xs ! i) else None)"

text \<open>
  The regular-expression class \<^verbatim>\<open>\s\<close> on code units below 256: space, tab, LF, VT, FF, CR
  and the no-break space U+00A0.
\<close>

definition isSpace :: "char \<Rightarrow> bool" where
  "isSpace c =
     (c \<in> set [CHR '' '', CHR 0x09, CHR 0x0A, CHR 0x0B, CHR 0x0C, CHR 0x0D, CHR 0xA0])"

text \<open>
  \<^verbatim>\<open>s.split(/\s+/)\<close>: the pieces between maximal runs of white space; a leading or
  trailing run leaves an empty first or last piece. The flag says that the
  character before was white space, so that a run separates once.
\<close>

fun splitSpaces :: "bool \<Rightarrow> string \<Rightarrow> string list" where
  "splitSpaces inRun [] = [[]]"
| "splitSpaces inRun (c # cs) =
     (if isSpace c then (if inRun then splitSpaces True cs else [] # splitSpaces True cs)
      else (case splitSpaces False cs of [] \<Rightarrow> [[c]] | w # ws \<Rightarrow> (c # w) # ws))"

text \<open>\<^verbatim>\<open>xs.join(sep)\<close>.\<close>

fun join :: "string \<Rightarrow> string list \<Rightarrow> string" where
  "join sep [] = []"
| "join sep [x] = x"
| "join sep (x # y # ys) = x @ sep @ join sep (y # ys)"

text \<open>A non-negative integer inside a template literal: its decimal digits.\<close>

definition digitChar :: "nat \<Rightarrow> char" where
  "digitChar d = ''0123456789'' ! (d mod 10)"

fun showNat :: "nat \<Rightarrow> string" where
  "showNat n = (if n < 10 then [digitChar n] else showNat (n div 10) @ [digitChar (n mod 10)])"

declare showNat.simps [simp del]

text \<open>\<^verbatim>\<open>Math.round(x)\<close>: the nearest integer, a half rounding up.\<close>

definition jsRound :: "real \<Rightarrow> real" where
  "jsRound x = of_int \<lfloor>x + 1 / 2\<rfloor>"

text \<open>\<^verbatim>\<open>Math.max(Math.min(x, hi), 0)\<close>.\<close>

definition clampScore :: "real \<Rightarrow> real \<Rightarrow> real" where
  "clampScore x hi = max (min x hi) 0"

text \<open>A thrown or rejected value: an \<^verbatim>\<open>Error\<close> with its message, and its \<^verbatim>\<open>code\<close> when it has one.\<close>

record jsError =
  code :: "string option"
  message :: string

subsection \<open>Scores and the running tally of an analysis\<close>

datatype level = Poor | Fair | Good | Excellent

text \<open>\<^verbatim>\<open>{ value, outOf, level, details? }\<close>.\<close>

record Score =
  scoreValue :: real
  outOf :: real
  level :: level
  details :: "string list option"

text \<open>
  The locals an analysis accumulates into: \<^verbatim>\<open>score = { base, details }\<close>,
  \<^verbatim>\<open>warnings\<close> and \<^verbatim>\<open>recommendations\<close>.
\<close>

record tally =
  base :: real
  dets :: "string list"
  warns :: "string list"
  recs :: "string list"

text \<open>What \<^verbatim>\<open>analyzeMXRecords\<close> and \<^verbatim>\<open>analyzeDKIMRecord\<close> return.\<close>

record analysis =
  aWarnings :: "string list"
  aRecommendations :: "string list"
  aScore :: Score

subsection \<open>services/mxService.js: the scoring of a record set\<close>

record mxRecord =
  priority :: int
  exchange :: string

text \<open>Lines 56-57: any record present.\<close>

definition mxPresent :: "tally \<Rightarrow> tally" where
  "mxPresent t = t\<lparr>base := base t + 1, dets := dets t @ [''MX records present (+1 point)'']\<rparr>"

text \<open>Lines 59-64: redundancy.\<close>

definition mxRedundancy :: "mxRecord list \<Rightarrow> tally \<Rightarrow> tally" where
  "mxRedundancy records t =
     (if length records \<ge> 2 then
        t\<lparr>base := base t + 1,
          dets := dets t @ [''Multiple MX records for redundancy (+1 point)'']\<rparr>
      else t\<lparr>recs := recs t @ [''Consider adding backup MX records for redundancy'']\<rparr>)"

text \<open>Lines 67-76: \<^verbatim>\<open>[...new Set(priorities)]\<close> has one entry per distinct priority.\<close>

definition mxPriorities :: "mxRecord list \<Rightarrow> tally \<Rightarrow> tally" where
  "mxPriorities records t =
     (let priorities = map priority records;
          uniquePriorities = remdups priorities
      in if length uniquePriorities = length records then
           t\<lparr>base := base t + 1,
             dets := dets t @ [''Proper priority configuration (+1 point)'']\<rparr>
         else t\<lparr>warns := warns t @ [''Some MX records have the same priority''],
                recs := recs t @ [''Use unique priority values for better load balancing'']\<rparr>)"

text \<open>Lines 79-94: known providers, in the key order of \<^verbatim>\<open>commonProviders\<close>.\<close>

definition commonProviders :: "string list \<Rightarrow> (string \<times> bool) list" where
  "commonProviders exchanges =
     [(''google.com'',
         list_ex (\<lambda>ex. jsIncludes ex ''google.com'' \<or> jsIncludes ex ''gmail.com'') exchanges),
      (''microsoft.com'',
         list_ex (\<lambda>ex. jsIncludes ex ''outlook.com'' \<or> jsIncludes ex ''hotmail.com''
                        \<or> jsIncludes ex ''live.com'') exchanges),
      (''cloudflare.com'', list_ex (\<lambda>ex. jsIncludes ex ''cloudflare'') exchanges),
      (''protonmail.com'', list_ex (\<lambda>ex. jsIncludes ex ''protonmail'') exchanges),
      (''zoho.com'', list_ex (\<lambda>ex. jsIncludes ex ''zoho'') exchanges)]"

definition mxProviders :: "mxRecord list \<Rightarrow> tally \<Rightarrow> tally" where
  "mxProviders records t =
     (let exchanges = map (\<lambda>r. toLowerCase (exchange r)) records;
          detectedProviders = map fst (filter snd (commonProviders exchanges))
      in if length detectedProviders > 0 then
           t\<lparr>dets := dets t @ [''Detected providers: '' @ join '', '' detectedProviders]\<rparr>
         else t)"

text \<open>Lines 97-105: priority 0 and priorities above 50.\<close>

definition mxLowPriority :: "mxRecord list \<Rightarrow> tally \<Rightarrow> tally" where
  "mxLowPriority records t =
     (if list_ex (\<lambda>r. priority r = 0) records then
        t\<lparr>warns := warns t @ [''Priority 0 detected - ensure this is intentional'']\<rparr>
      else t)"

definition mxHighPriority :: "mxRecord list \<Rightarrow> tally \<Rightarrow> tally" where
  "mxHighPriority records t =
     (if list_ex (\<lambda>r. priority r > 50) records then
        t\<lparr>recs := recs t @
          [''Consider using lower priority values (closer to 0) for better delivery'']\<rparr>
      else t)"

text \<open>Lines 108-115: the null MX record of RFC 7505.\<close>

definition hasNullMx :: "mxRecord list \<Rightarrow> bool" where
  "hasNullMx records = list_ex (\<lambda>r. exchange r = ''.'' \<or> exchange r = []) records"

definition mxNull :: "mxRecord list \<Rightarrow> tally \<Rightarrow> tally" where
  "mxNull records t =
     (if hasNullMx records \<and> length records = 1 then
        t\<lparr>warns := warns t @ [''Null MX record detected - this domain does not accept email''],
          base := 0,
          dets := [''Null MX record - domain explicitly rejects email'']\<rparr>
      else if hasNullMx records then
        t\<lparr>warns := warns t @
          [''Mixed null and regular MX records - this configuration may cause issues'']\<rparr>
      else t)"

text \<open>Lines 118-121: the level of the clamped MX score.\<close>

definition mxSecurityLevel :: "real \<Rightarrow> level" where
  "mxSecurityLevel finalScore =
     (if finalScore \<ge> 2.5 then Excellent
      else if finalScore \<ge> 2 then Good
      else if finalScore \<ge> 1 then Fair
      else Poor)"

text \<open>Lines 117-132.\<close>

definition mxFinish :: "tally \<Rightarrow> analysis" where
  "mxFinish t =
     (let finalScore = clampScore (base t) 3 in
      \<lparr>aWarnings = warns t,
       aRecommendations = recs t,
       aScore = \<lparr>scoreValue = jsRound (finalScore * 10) / 10, outOf = 3,
                 level = mxSecurityLevel finalScore, details = Some (dets t)\<rparr>\<rparr>)"

text \<open>The tally before the final clamp, lines 56-115.\<close>

definition mxTally :: "mxRecord list \<Rightarrow> tally" where
  "mxTally records =
     mxNull records (mxHighPriority records (mxLowPriority records
       (mxProviders records (mxPriorities records (mxRedundancy records
         (mxPresent \<lparr>base = 0, dets = [], warns = [], recs = []\<rparr>))))))"

text \<open>\<^verbatim>\<open>analyzeMXRecords(records)\<close>, lines 46-133.\<close>

definition analyzeMXRecords :: "mxRecord list \<Rightarrow> analysis" where
  "analyzeMXRecords records =
     (if length records = 0 then
        \<lparr>aWarnings = [''No MX records found''], aRecommendations = [],
         aScore = \<lparr>scoreValue = 0, outOf = 3, level = Poor, details = None\<rparr>\<rparr>
      else mxFinish (mxTally records))"

subsection \<open>services/dkimService.js: the scoring of a record\<close>

text \<open>
  What \<^verbatim>\<open>analyzeDKIMRecord\<close> reads of the mailauth verification result:
  \<^verbatim>\<open>results[0].status.result\<close> and \<^verbatim>\<open>results[0].info\<close>, each possibly missing.
\<close>

record dkimCheck =
  statusResult :: "string option"
  info :: "string option"

record dkimVerdict =
  results :: "dkimCheck list option"

text \<open>Truthiness of an optional string: \<^verbatim>\<open>undefined\<close> and \<^verbatim>\<open>""\<close> are falsy.\<close>

definition truthy :: "string option \<Rightarrow> bool" where
  "truthy v = (case v of None \<Rightarrow> False | Some s \<Rightarrow> s \<noteq> [])"

text \<open>Line 232: the record has none of the three marks of a DKIM record.\<close>

definition dkimShaped :: "string \<Rightarrow> bool" where
  "dkimShaped record =
     (jsIncludes record ''v=DKIM1'' \<or> jsIncludes record ''k=rsa'' \<or> jsIncludes record ''p='')"

text \<open>Lines 237-238.\<close>

definition dkimValid :: "tally \<Rightarrow> tally" where
  "dkimValid t =
     t\<lparr>base := base t + 1, dets := dets t @ [''Valid DKIM record found (+1 point)'']\<rparr>"

text \<open>Lines 241-246: the public key.\<close>

definition dkimPublicKey :: "string \<Rightarrow> tally \<Rightarrow> tally" where
  "dkimPublicKey record t =
     (if jsIncludes record ''p='' \<and> \<not> jsIncludes record ''p=;'' then
        t\<lparr>base := base t + 2, dets := dets t @ [''Public key present (+2 points)'']\<rparr>
      else t\<lparr>warns := warns t @ [''No public key found in DKIM record'']\<rparr>)"

text \<open>Lines 249-255: the key type.\<close>

definition dkimKeyType :: "string \<Rightarrow> tally \<Rightarrow> tally" where
  "dkimKeyType record t =
     (if jsIncludes record ''k=rsa'' then
        t\<lparr>base := base t + 1, dets := dets t @ [''RSA key type (+1 point)'']\<rparr>
      else if jsIncludes record ''k=ed25519'' then
        t\<lparr>base := base t + 1.5,
          dets := dets t @ [''Ed25519 key type - excellent security (+1.5 points)'']\<rparr>
      else t)"

text \<open>Lines 258-265: the hash algorithm.\<close>

definition dkimHash :: "string \<Rightarrow> tally \<Rightarrow> tally" where
  "dkimHash record t =
     (if jsIncludes record ''h=sha256'' then
        t\<lparr>base := base t + 1, dets := dets t @ [''SHA-256 hash algorithm (+1 point)'']\<rparr>
      else if jsIncludes record ''h=sha1'' then
        t\<lparr>base := base t + 0.5,
          dets := dets t @ [''SHA-1 hash algorithm (+0.5 points)''],
          recs := recs t @ [''Consider upgrading to SHA-256 for better security'']\<rparr>
      else t)"

text \<open>Lines 268-271: the service type.\<close>

definition dkimService :: "string \<Rightarrow> tally \<Rightarrow> tally" where
  "dkimService record t =
     (if jsIncludes record ''s=email'' then
        t\<lparr>base := base t + 0.5,
          dets := dets t @ [''Restricted to email service (+0.5 points)'']\<rparr>
      else t)"

text \<open>Lines 274-280: the two flags, each checked on its own.\<close>

definition dkimTesting :: "string \<Rightarrow> tally \<Rightarrow> tally" where
  "dkimTesting record t =
     (if jsIncludes record ''t=y'' then
        t\<lparr>warns := warns t @
          [''Testing mode enabled (t=y). Remove this flag for production.'']\<rparr>
      else t)"

definition dkimStrict :: "string \<Rightarrow> tally \<Rightarrow> tally" where
  "dkimStrict record t =
     (if jsIncludes record ''t=s'' then
        t\<lparr>warns := warns t @
          [''Strict mode enabled. This may cause issues with some email systems.'']\<rparr>
      else t)"

text \<open>
  Line 283: \<^verbatim>\<open>record.match(/p=([A-Za-z0-9+/=]+)/)\<close>, the captured group of the leftmost
  match: the longest run of key characters after the first \<^verbatim>\<open>p=\<close> that is followed
  by one.
\<close>

definition keyChar :: "char \<Rightarrow> bool" where
  "keyChar c =
     (c \<in> set ''ABCDEFGHIJKLMNOPQRSTUVWXYZabcdefghijklmnopqrstuvwxyz0123456789+/='')"

fun publicKeyMatch :: "string \<Rightarrow> string option" where
  "publicKeyMatch [] = None"
| "publicKeyMatch (c # cs) =
     (if startsWith (c # cs) ''p='' \<and> takeWhile keyChar (drop 2 (c # cs)) \<noteq> [] then
        Some (takeWhile keyChar (drop 2 (c # cs)))
      else publicKeyMatch cs)"

text \<open>Lines 283-293: the key length.\<close>

definition dkimKeyLength :: "string \<Rightarrow> tally \<Rightarrow> tally" where
  "dkimKeyLength record t =
     (case publicKeyMatch record of
        None \<Rightarrow> t
      | Some key \<Rightarrow>
          let keyLength = length key in
          if keyLength > 300 then
            t\<lparr>base := base t + 0.5, dets := dets t @ [''Strong key length (+0.5 points)'']\<rparr>
          else if keyLength < 200 then
            t\<lparr>warns := warns t @ [''Potentially weak key length detected''],
              recs := recs t @ [''Consider using a stronger RSA key (2048+ bits)'']\<rparr>
          else t)"

text \<open>Lines 299-309: the status of the first mailauth result.\<close>

definition dkimStatus :: "dkimCheck \<Rightarrow> tally \<Rightarrow> tally" where
  "dkimStatus result t =
     (case statusResult result of
        None \<Rightarrow> t
      | Some r \<Rightarrow>
          if r = [] then t
          else
            let t1 = t\<lparr>dets := dets t @ [''Mailauth DKIM check: '' @ r]\<rparr> in
            if r = ''pass'' then
              t1\<lparr>base := base t1 + 0.5,
                 dets := dets t1 @ [''DKIM verification passed (+0.5 points)'']\<rparr>
            else if r = ''neutral'' then
              t1\<lparr>dets := dets t1 @ [''DKIM verification neutral (no penalty)'']\<rparr>
            else t1)"

text \<open>Lines 311-313.\<close>

definition dkimInfo :: "dkimCheck \<Rightarrow> tally \<Rightarrow> tally" where
  "dkimInfo result t =
     (case info result of
        None \<Rightarrow> t
      | Some i \<Rightarrow> if i = [] then t else t\<lparr>dets := dets t @ [''DKIM info: '' @ i]\<rparr>)"

text \<open>Lines 296-315: \<^verbatim>\<open>dkimResult\<close> is \<^verbatim>\<open>null\<close> when the verification threw.\<close>

definition dkimMailauth :: "dkimVerdict option \<Rightarrow> tally \<Rightarrow> tally" where
  "dkimMailauth dkimResult t =
     (case dkimResult of
        None \<Rightarrow> t
      | Some v \<Rightarrow>
          (case results v of
             None \<Rightarrow> t
           | Some [] \<Rightarrow> t
           | Some (result # _) \<Rightarrow> dkimInfo result (dkimStatus result t)))"

text \<open>Lines 318-321: the level of the clamped DKIM score.\<close>

definition dkimSecurityLevel :: "real \<Rightarrow> level" where
  "dkimSecurityLevel finalScore =
     (if finalScore \<ge> 4 then Excellent
      else if finalScore \<ge> 3 then Good
      else if finalScore \<ge> 2 then Fair
      else Poor)"

text \<open>Lines 317-332.\<close>

definition dkimFinish :: "tally \<Rightarrow> analysis" where
  "dkimFinish t =
     (let finalScore = clampScore (base t) 5 in
      \<lparr>aWarnings = warns t,
       aRecommendations = recs t,
       aScore = \<lparr>scoreValue = jsRound (finalScore * 10) / 10, outOf = 5,
                 level = dkimSecurityLevel finalScore, details = Some (dets t)\<rparr>\<rparr>)"

text \<open>The tally before the final clamp, lines 237-315.\<close>

definition dkimTally :: "string \<Rightarrow> dkimVerdict option \<Rightarrow> tally" where
  "dkimTally record dkimResult =
     dkimMailauth dkimResult (dkimKeyLength record (dkimStrict record (dkimTesting record
       (dkimService record (dkimHash record (dkimKeyType record (dkimPublicKey record
         (dkimValid \<lparr>base = 0, dets = [], warns = [], recs = []\<rparr>))))))))"

text \<open>\<^verbatim>\<open>analyzeDKIMRecord(record, dkimResult)\<close>, lines 226-333.\<close>

definition analyzeDKIMRecord :: "string \<Rightarrow> dkimVerdict option \<Rightarrow> analysis" where
  "analyzeDKIMRecord record dkimResult =
     (if \<not> dkimShaped record then
        \<lparr>aWarnings = [''Invalid DKIM record format''], aRecommendations = [],
         aScore = \<lparr>scoreValue = 0, outOf = 5, level = Poor, details = None\<rparr>\<rparr>
      else dkimFinish (dkimTally record dkimResult))"

subsection \<open>services/spfService.js: the analysis of a record\<close>

text \<open>One entry of \<^verbatim>\<open>analysis.mechanisms\<close>: \<^verbatim>\<open>{ original, type, requiresLookup }\<close>.\<close>

record mechanism =
  original :: string
  mechType :: string
  requiresLookup :: bool

text \<open>The object \<^verbatim>\<open>_analyzeSpfRecord\<close> fills in and returns.\<close>

record spfAnalysis =
  anLookups :: nat
  anWarnings :: "string list"
  anRecommendations :: "string list"
  anPolicy :: "string option"
  anMechanisms :: "mechanism list"

text \<open>\<^verbatim>\<open>s.split(c)[0]\<close>.\<close>

definition firstPiece :: "char \<Rightarrow> string \<Rightarrow> string" where
  "firstPiece c s = (case splitOn c s of [] \<Rightarrow> [] | p # _ \<Rightarrow> p)"

text \<open>Lines 186-224: the policy mechanism and its strength.\<close>

definition spfPolicy :: "string list \<Rightarrow> spfAnalysis \<Rightarrow> spfAnalysis" where
  "spfPolicy mechanisms a =
     (case find (\<lambda>m. jsIncludes (toLowerCase m) ''all'') mechanisms of
        None \<Rightarrow>
          a\<lparr>anPolicy := Some ''No policy specified'',
            anWarnings := anWarnings a @
              [''Record does not contain a terminating \"all\" mechanism.''],
            anRecommendations := anRecommendations a @
              [''Add \"-all\" (fail), \"~all\" (softfail), or \"?all\" (neutral) to specify a default policy.'']\<rparr>
      | Some policyMechanism \<Rightarrow>
          let a1 = a\<lparr>anPolicy := Some policyMechanism\<rparr>;
              policyLower = toLowerCase policyMechanism
          in if policyLower = ''+all'' then
               a1\<lparr>anWarnings := anWarnings a1 @
                    [''The \"+all\" mechanism is highly discouraged as it allows any server to send email.''],
                  anRecommendations := anRecommendations a1 @
                    [''Replace \"+all\" with \"-all\" for strict policy or \"~all\" for gradual deployment.'']\<rparr>
             else if policyLower = ''?all'' then
               a1\<lparr>anWarnings := anWarnings a1 @
                    [''Neutral policy \"?all\" provides no protection against spoofing.''],
                  anRecommendations := anRecommendations a1 @
                    [''Consider using \"~all\" (softfail) or \"-all\" (fail) for better security.'']\<rparr>
             else if policyLower = ''~all'' then
               a1\<lparr>anRecommendations := anRecommendations a1 @
                    [''Good: Using \"~all\" allows gradual SPF deployment. Consider \"-all\" for stricter security once confident.'']\<rparr>
             else if policyLower = ''-all'' then
               a1\<lparr>anRecommendations := anRecommendations a1 @
                    [''Excellent: Using \"-all\" provides the strongest SPF protection.'']\<rparr>
             else a1)"

text \<open>Line 229: the type of a mechanism, the text before the first of \<^verbatim>\<open>:\<close>, \<^verbatim>\<open>/\<close>, \<^verbatim>\<open>=\<close>.\<close>

definition mechanismType :: "string \<Rightarrow> string" where
  "mechanismType mechanism =
     firstPiece CHR ''='' (firstPiece CHR ''/'' (firstPiece CHR '':'' (toLowerCase mechanism)))"

text \<open>Lines 231-237.\<close>

definition spfRecordMechanism :: "string \<Rightarrow> spfAnalysis \<Rightarrow> spfAnalysis" where
  "spfRecordMechanism mechanism a =
     (let type = mechanismType mechanism in
      a\<lparr>anMechanisms := anMechanisms a @
          [\<lparr>original = mechanism, mechType = type,
            requiresLookup = (type \<in> set [''include'', ''a'', ''mx'', ''exists'', ''redirect''])\<rparr>]\<rparr>)"

text \<open>Lines 240-242.\<close>

definition spfCountLookup :: "string \<Rightarrow> spfAnalysis \<Rightarrow> spfAnalysis" where
  "spfCountLookup mechanism a =
     (if mechanismType mechanism \<in> set [''include'', ''a'', ''mx'', ''exists''] then
        a\<lparr>anLookups := anLookups a + 1\<rparr>
      else a)"

text \<open>Lines 245-253: \<^verbatim>\<open>mechanism.split("=")[1]\<close> is the text after the first \<^verbatim>\<open>=\<close>, up to the next.\<close>

definition spfRedirect :: "string \<Rightarrow> spfAnalysis \<Rightarrow> spfAnalysis" where
  "spfRedirect mechanism a =
     (if mechanismType mechanism = ''redirect'' then
        let a1 = a\<lparr>anLookups := anLookups a + 1\<rparr> in
        (case atIndex (splitOn CHR ''='' mechanism) 1 of
           None \<Rightarrow> a1
         | Some redirectDomain \<Rightarrow>
             if redirectDomain = [] then a1
             else a1\<lparr>anRecommendations := anRecommendations a1 @
                    [''Redirect to '' @ redirectDomain @
                     '' detected. Ensure the target domain has a valid SPF record.'']\<rparr>)
      else a)"

text \<open>Lines 256-263.\<close>

definition spfPtr :: "string \<Rightarrow> spfAnalysis \<Rightarrow> spfAnalysis" where
  "spfPtr mechanism a =
     (if mechanismType mechanism = ''ptr'' then
        a\<lparr>anWarnings := anWarnings a @
             [''The \"ptr\" mechanism is deprecated and should not be used (RFC 7208).''],
          anRecommendations := anRecommendations a @
             [''Remove the \"ptr\" mechanism. Use \"a\", \"mx\", or \"ip4/ip6\" instead.'']\<rparr>
      else a)"

text \<open>Lines 266-276.\<close>

definition spfBareMx :: "string \<Rightarrow> spfAnalysis \<Rightarrow> spfAnalysis" where
  "spfBareMx mechanism a =
     (if mechanismType mechanism = ''mx'' \<and> \<not> jsIncludes mechanism '':'' then
        a\<lparr>anRecommendations := anRecommendations a @
             [''Using bare \"mx\" mechanism. Consider specifying MX records explicitly for better performance.'']\<rparr>
      else a)"

definition spfBareA :: "string \<Rightarrow> spfAnalysis \<Rightarrow> spfAnalysis" where
  "spfBareA mechanism a =
     (if mechanismType mechanism = ''a'' \<and> \<not> jsIncludes mechanism '':'' then
        a\<lparr>anRecommendations := anRecommendations a @
             [''Using bare \"a\" mechanism. Consider specifying A records explicitly for better performance.'']\<rparr>
      else a)"

text \<open>The body of the loop over the mechanisms, lines 227-277.\<close>

definition spfMechanism :: "string \<Rightarrow> spfAnalysis \<Rightarrow> spfAnalysis" where
  "spfMechanism mechanism a =
     spfBareA mechanism (spfBareMx mechanism (spfPtr mechanism (spfRedirect mechanism
       (spfCountLookup mechanism (spfRecordMechanism mechanism a)))))"

fun spfMechanisms :: "string list \<Rightarrow> spfAnalysis \<Rightarrow> spfAnalysis" where
  "spfMechanisms [] a = a"
| "spfMechanisms (mechanism # rest) a = spfMechanisms rest (spfMechanism mechanism a)"

text \<open>The texts of the lookup-limit analysis, lines 280-298.\<close>

definition fatalLookupWarning :: "nat \<Rightarrow> string" where
  "fatalLookupWarning n =
     ''Fatal: Exceeded 10 DNS lookup limit. Found '' @ showNat n @ '' lookups (RFC 7208).''"

definition reduceLookupsRecommendation :: string where
  "reduceLookupsRecommendation =
     ''Reduce DNS lookups by: 1) Flattening SPF records, 2) Using IP ranges instead of includes, 3) Consolidating mechanisms.''"

definition approachingLimitWarning :: "nat \<Rightarrow> string" where
  "approachingLimitWarning n =
     ''Approaching DNS lookup limit: '' @ showNat n @ ''/10 lookups used.''"

definition optimizeRecommendation :: string where
  "optimizeRecommendation =
     ''Consider optimizing your SPF record to reduce DNS lookups before hitting the limit.''"

definition monitorRecommendation :: "nat \<Rightarrow> string" where
  "monitorRecommendation n =
     ''Currently using '' @ showNat n @
     ''/10 DNS lookups. Monitor this as you add more mechanisms.''"

text \<open>Lines 280-298: \<^verbatim>\<open>unshift\<close> puts a text first, \<^verbatim>\<open>push\<close> last.\<close>

definition spfLookupLimit :: "spfAnalysis \<Rightarrow> spfAnalysis" where
  "spfLookupLimit a =
     (if anLookups a > 10 then
        a\<lparr>anWarnings := fatalLookupWarning (anLookups a) # anWarnings a,
          anRecommendations := reduceLookupsRecommendation # anRecommendations a\<rparr>
      else if anLookups a > 8 then
        a\<lparr>anWarnings := anWarnings a @ [approachingLimitWarning (anLookups a)],
          anRecommendations := anRecommendations a @ [optimizeRecommendation]\<rparr>
      else if anLookups a > 5 then
        a\<lparr>anRecommendations := anRecommendations a @ [monitorRecommendation (anLookups a)]\<rparr>
      else a)"

text \<open>Lines 301-308.\<close>

definition spfRecordLength :: "string \<Rightarrow> spfAnalysis \<Rightarrow> spfAnalysis" where
  "spfRecordLength record a =
     (if length record > 255 then
        a\<lparr>anWarnings := anWarnings a @
             [''SPF record exceeds 255 characters. This may cause DNS issues.''],
          anRecommendations := anRecommendations a @
             [''Shorten your SPF record by using shorter domain names or consolidating mechanisms.'']\<rparr>
      else a)"

text \<open>Lines 311-322: a domain that includes itself.\<close>

definition spfIncludeLoop :: "string list \<Rightarrow> string \<Rightarrow> spfAnalysis \<Rightarrow> spfAnalysis" where
  "spfIncludeLoop mechanisms domain a =
     (let includeTargets =
            map (\<lambda>m. atIndex (splitOn CHR '':'' m) 1)
              (filter (\<lambda>m. startsWith (toLowerCase m) ''include:'') mechanisms)
      in if Some domain \<in> set includeTargets then
           a\<lparr>anWarnings := anWarnings a @
                [''Potential SPF include loop detected (domain includes itself).''],
             anRecommendations := anRecommendations a @
                [''Remove self-referential includes to prevent infinite loops.'']\<rparr>
         else a)"

text \<open>The analysis up to the lookup-limit rules, lines 176-277.\<close>

definition spfBeforeLimit :: "string \<Rightarrow> spfAnalysis" where
  "spfBeforeLimit record =
     (let mechanisms = drop 1 (splitSpaces False record) in
      spfMechanisms mechanisms (spfPolicy mechanisms
        \<lparr>anLookups = 0, anWarnings = [], anRecommendations = [], anPolicy = None,
         anMechanisms = []\<rparr>))"

text \<open>\<^verbatim>\<open>_analyzeSpfRecord(record, domain)\<close>, lines 175-325.\<close>

definition analyzeSpfRecord :: "string \<Rightarrow> string \<Rightarrow> spfAnalysis" where
  "analyzeSpfRecord record domain =
     (let mechanisms = drop 1 (splitSpaces False record) in
      spfIncludeLoop mechanisms domain (spfRecordLength record
        (spfLookupLimit (spfBeforeLimit record))))"

subsection \<open>Protocol reports\<close>

text \<open>
  What mailauth's \<^verbatim>\<open>spf(...)\<close> resolves to, as far as \<^verbatim>\<open>analyzeSPF\<close> reads it, one
  entry of \<^verbatim>\<open>ipTestResults\<close>, and the \<^verbatim>\<open>mailauthResult\<close> of an SPF report.
\<close>

record spfLookup =
  status :: string
  comment :: "string option"
  explanation :: "string option"

record ipTestResult =
  testIp :: string
  testResult :: string
  testExplanation :: "string option"
  testDetails :: "spfLookup option"

record spfVerdict =
  verdictStatus :: string
  verdictExplanation :: string
  verdictDetails :: "spfLookup option"

text \<open>
  The object an analyzer resolves to. One record holds the properties of all four kinds
  of report; a property an object does not have is \<^term>\<open>None\<close>. \<open>parsedP\<close> is
  \<^verbatim>\<open>parsed?.p\<close> of a DMARC report, \<open>spfMailauthResult\<close> and \<open>dkimMailauthResult\<close> are the
  \<^verbatim>\<open>mailauthResult\<close> of an SPF and of a DKIM report (for the latter, \<^term>\<open>Some None\<close> is
  \<^verbatim>\<open>null\<close>).
\<close>

record report =
  success :: bool
  error :: "string option"
  domain :: "string option"
  rawRecord :: "string option"
  warnings :: "string list option"
  recommendations :: "string list option"
  score :: "Score option"
  parsedP :: "string option"
  lookups :: "nat option"
  policy :: "string option"
  mechanisms :: "mechanism list option"
  ipTestResults :: "ipTestResult list option"
  spfMailauthResult :: "spfVerdict option"
  selector :: "string option"
  checkedRecord :: "string option"
  dkimMailauthResult :: "dkimVerdict option option"
  records :: "mxRecord list option"

text \<open>An object literal starts from no property at all.\<close>

definition noProperties :: report where
  "noProperties =
     \<lparr>success = False, error = None, domain = None, rawRecord = None, warnings = None,
      recommendations = None, score = None, parsedP = None, lookups = None, policy = None,
      mechanisms = None, ipTestResults = None, spfMailauthResult = None, selector = None,
      checkedRecord = None, dkimMailauthResult = None, records = None\<rparr>"

subsection \<open>services/mxService.js: \<^verbatim>\<open>analyzeMX\<close>\<close>

text \<open>
  \<^verbatim>\<open>analyzeMX(domain)\<close>, lines 9-44. \<open>resolved\<close> is the outcome of
  \<^verbatim>\<open>resolver.resolveMx(domain)\<close>; \<^verbatim>\<open>Array.prototype.sort\<close> is stable, as \<^const>\<open>sort_key\<close> is.
\<close>

definition analyzeMX :: "string \<Rightarrow> jsError + mxRecord list \<Rightarrow> report" where
  "analyzeMX dn resolved =
     (case resolved of
        Inl err \<Rightarrow> noProperties\<lparr>success := False, error := Some (message err), domain := Some dn\<rparr>
      | Inr mxRecords \<Rightarrow>
          if length mxRecords = 0 then
            noProperties\<lparr>success := False, error := Some ''No MX records found'',
              domain := Some dn,
              recommendations := Some
                [''Add MX records to enable email delivery to your domain'',
                 ''MX records specify which mail servers handle email for your domain'',
                 ''Ensure proper priority values for load balancing and redundancy'']\<rparr>
          else
            let sortedMx = sort_key priority mxRecords;
                analysis = analyzeMXRecords sortedMx
            in noProperties\<lparr>success := True, domain := Some dn, records := Some sortedMx,
                 warnings := Some (aWarnings analysis),
                 recommendations := Some (aRecommendations analysis),
                 score := Some (aScore analysis)\<rparr>)"

subsection \<open>services/dkimService.js: \<^verbatim>\<open>analyzeDKIM\<close>\<close>

definition dkimNotFound :: "string \<Rightarrow> string \<Rightarrow> report" where
  "dkimNotFound dn sel =
     noProperties\<lparr>success := False,
       error := Some (''DKIM record not found for selector '' @ [CHR 0x27] @ sel @ [CHR 0x27]),
       domain := Some dn, selector := Some sel,
       checkedRecord := Some (sel @ ''._domainkey.'' @ dn),
       recommendations := Some
         [''Set up DKIM signing for your domain'',
          ''Common selectors to try: default, google, mail, dkim, selector1, selector2'',
          ''Contact your email provider for DKIM setup instructions'']\<rparr>"

text \<open>
  \<^verbatim>\<open>analyzeDKIM(domain, selector)\<close>, lines 155-224. \<open>resolved\<close> is the outcome of
  \<^verbatim>\<open>resolver.resolveTxt\<close> on the selector's name, \<open>verified\<close> that of mailauth's
  \<^verbatim>\<open>dkimVerify\<close>, whose failure leaves \<^verbatim>\<open>mailauthResult\<close> at \<^verbatim>\<open>null\<close>.
\<close>

definition analyzeDKIM ::
  "string \<Rightarrow> string \<Rightarrow> jsError + string list list \<Rightarrow> jsError + dkimVerdict \<Rightarrow> report" where
  "analyzeDKIM dn sel resolved verified =
     (case resolved of
        Inl dnsError \<Rightarrow> dkimNotFound dn sel
      | Inr txtRecords \<Rightarrow>
          let flatRecords = map concat txtRecords in
          (case find dkimShaped flatRecords of
             None \<Rightarrow> dkimNotFound dn sel
           | Some dkimKey \<Rightarrow>
               let mailauthResult = (case verified of Inl authError \<Rightarrow> None | Inr v \<Rightarrow> Some v);
                   analysis = analyzeDKIMRecord dkimKey mailauthResult
               in noProperties\<lparr>success := True, domain := Some dn, selector := Some sel,
                    checkedRecord := Some (sel @ ''._domainkey.'' @ dn),
                    rawRecord := Some dkimKey,
                    dkimMailauthResult := Some mailauthResult,
                    warnings := Some (aWarnings analysis),
                    recommendations := Some (aRecommendations analysis),
                    score := Some (aScore analysis)\<rparr>))"

subsection \<open>services/spfService.js: \<^verbatim>\<open>analyzeSPF\<close>\<close>

definition spfNotFound :: "string \<Rightarrow> report" where
  "spfNotFound dn =
     noProperties\<lparr>success := False, error := Some ''No SPF record found.'',
       domain := Some dn,
       recommendations := Some
         [''Create a TXT record for your domain starting with \"v=spf1\".'',
          ''Example: \"v=spf1 include:_spf.google.com ~all\"'',
          ''Test your SPF record before deploying to production.'']\<rparr>"

text \<open>Lines 69-85.\<close>

definition spfMultiple :: "string \<Rightarrow> string list \<Rightarrow> report" where
  "spfMultiple dn spfRecords =
     noProperties\<lparr>success := False, error := Some ''Fatal: Multiple SPF records found.'',
       domain := Some dn,
       rawRecord := Some (join '' | '' spfRecords),
       recommendations := Some
         [''A domain MUST NOT have multiple SPF records as per RFC 7208.'',
          ''Merge all mechanisms into a single \"v=spf1\" record.'',
          ''Remove duplicate or conflicting SPF records immediately.''],
       warnings := Some
         [''Multiple SPF records will cause authentication failures.'',
          ''Email delivery may be severely impacted.'']\<rparr>"

text \<open>Lines 159-168: the outer \<^verbatim>\<open>catch\<close>.\<close>

definition spfFailed :: "string \<Rightarrow> jsError \<Rightarrow> report" where
  "spfFailed dn err =
     noProperties\<lparr>success := False, error := Some (message err), domain := Some dn,
       recommendations := Some
         [''Check your DNS configuration.'',
          ''Ensure your domain is properly configured.'',
          ''Try again in a few minutes if this is a temporary DNS issue.'']\<rparr>"

definition testIPs :: "string list" where
  "testIPs = [''8.8.8.8'', ''1.1.1.1'', ''208.67.222.222'', ''64.233.160.1'']"

text \<open>Lines 99-121: one probe; \<open>outcome\<close> is what \<^verbatim>\<open>spf({... ip: testIP ...})\<close> settled to.\<close>

definition spfProbe :: "string \<Rightarrow> jsError + spfLookup \<Rightarrow> ipTestResult" where
  "spfProbe testIP outcome =
     (case outcome of
        Inr spfResult \<Rightarrow>
          \<lparr>testIp = testIP, testResult = status spfResult,
           testExplanation = orElse (comment spfResult) (explanation spfResult),
           testDetails = Some spfResult\<rparr>
      | Inl err \<Rightarrow>
          \<lparr>testIp = testIP, testResult = ''error'',
           testExplanation =
             Some (''Error testing with IP '' @ testIP @ '': '' @ message err),
           testDetails = None\<rparr>)"

text \<open>Lines 125-127 and 143-156.\<close>

definition spfRepresentative :: "ipTestResult list \<Rightarrow> spfVerdict" where
  "spfRepresentative spfResults =
     (case find (\<lambda>r. testDetails r \<noteq> None \<and> testResult r \<noteq> ''error'') spfResults of
        None \<Rightarrow>
          \<lparr>verdictStatus = ''error'',
           verdictExplanation = ''Unable to perform SPF analysis with any test IP'',
           verdictDetails = None\<rparr>
      | Some r \<Rightarrow>
          (case testDetails r of
             None \<Rightarrow>
               \<lparr>verdictStatus = ''error'',
                verdictExplanation = ''Unable to perform SPF analysis with any test IP'',
                verdictDetails = None\<rparr>
           | Some primaryResult \<Rightarrow>
               \<lparr>verdictStatus = status primaryResult,
                verdictExplanation =
                  (case orElse (orElse (comment primaryResult) (explanation primaryResult))
                          (Some ''No additional explanation available'') of
                     None \<Rightarrow> [] | Some e \<Rightarrow> e),
                verdictDetails = Some primaryResult\<rparr>))"

text \<open>
  \<^verbatim>\<open>analyzeSPF(domain)\<close>, lines 28-170. \<open>resolved\<close> is the outcome of
  \<^verbatim>\<open>resolver.resolveTxt(domain)\<close> and \<open>probe\<close> gives, for each test address, what
  mailauth's \<^verbatim>\<open>spf\<close> settled to.
\<close>

definition analyzeSPF ::
  "string \<Rightarrow> jsError + string list list \<Rightarrow> (string \<Rightarrow> jsError + spfLookup) \<Rightarrow> report" where
  "analyzeSPF dn resolved probe =
     (case resolved of
        Inl err \<Rightarrow>
          if code err = Some ''ENODATA'' \<or> code err = Some ''ENOTFOUND'' then spfNotFound dn
          else spfFailed dn err
      | Inr txtRecords \<Rightarrow>
          let flatRecords = map concat txtRecords;
              spfRecords = filter (\<lambda>txt. startsWith (toLowerCase txt) ''v=spf1'') flatRecords
          in if length spfRecords = 0 then spfNotFound dn
             else if length spfRecords > 1 then spfMultiple dn spfRecords
             else
               let spfRecord = hd spfRecords;
                   spfResults = map (\<lambda>testIP. spfProbe testIP (probe testIP)) testIPs;
                   analysis = analyzeSpfRecord spfRecord dn
               in noProperties\<lparr>success := True, domain := Some dn,
                    rawRecord := Some spfRecord,
                    lookups := Some (anLookups analysis),
                    policy := anPolicy analysis,
                    warnings := Some (anWarnings analysis),
                    recommendations := Some (anRecommendations analysis),
                    mechanisms := Some (anMechanisms analysis),
                    ipTestResults := Some spfResults,
                    spfMailauthResult := Some (spfRepresentative spfResults)\<rparr>)"

subsection \<open>services/emailSecurityService.js\<close>

text \<open>One entry of what \<^verbatim>\<open>Promise.allSettled\<close> resolves to.\<close>

datatype settled = Fulfilled report | Rejected jsError

text \<open>Lines 16-18: a rejected analyzer is replaced by \<^verbatim>\<open>{ success: false, error: r.reason.message }\<close>.\<close>

definition placeholder :: "jsError \<Rightarrow> report" where
  "placeholder reason = noProperties\<lparr>success := False, error := Some (message reason)\<rparr>"

definition settledReport :: "settled \<Rightarrow> report" where
  "settledReport r = (case r of Fulfilled v \<Rightarrow> v | Rejected reason \<Rightarrow> placeholder reason)"

text \<open>
  Lines 24-42, one of the four blocks: a report that succeeded and carries a score adds
  its value and its scale to the two running sums.
\<close>

definition addScore :: "report \<Rightarrow> real \<times> real \<Rightarrow> real \<times> real" where
  "addScore r running =
     (case running of (totalScore, maxScore) \<Rightarrow>
        (case score r of
           None \<Rightarrow> (totalScore, maxScore)
         | Some s \<Rightarrow>
             if success r then (totalScore + scoreValue s, maxScore + outOf s)
             else (totalScore, maxScore)))"

text \<open>Lines 21-42: \<^verbatim>\<open>totalScore\<close> and \<^verbatim>\<open>maxScore\<close> after the four blocks.\<close>

definition scoreSums :: "report \<Rightarrow> report \<Rightarrow> report \<Rightarrow> report \<Rightarrow> real \<times> real" where
  "scoreSums dmarcResult spfResult dkimResult mxResult =
     addScore mxResult (addScore dkimResult (addScore spfResult (addScore dmarcResult (0, 0))))"

text \<open>Line 44.\<close>

definition overallOf :: "real \<times> real \<Rightarrow> real" where
  "overallOf totals =
     (case totals of (totalScore, maxScore) \<Rightarrow>
        if maxScore > 0 then (totalScore / maxScore) * 10 else 0)"

text \<open>Lines 45-48.\<close>

definition overallSecurityLevel :: "real \<Rightarrow> level" where
  "overallSecurityLevel overall =
     (if overall \<ge> 8 then Excellent
      else if overall \<ge> 6 then Good
      else if overall \<ge> 4 then Fair
      else Poor)"

text \<open>Lines 54-62: \<^verbatim>\<open>if (r.xs) all.push(...r.xs)\<close>, in the order DMARC, SPF, DKIM, MX.\<close>

definition pushAll :: "string list option \<Rightarrow> string list \<Rightarrow> string list" where
  "pushAll xs collected = (case xs of None \<Rightarrow> collected | Some ys \<Rightarrow> collected @ ys)"

text \<open>
  The two marks of the priority recommendations, U+1F534 and U+1F7E1, as their UTF-8
  bytes.
\<close>

definition redCircle :: string where
  "redCircle = [CHR 0xF0, CHR 0x9F, CHR 0x94, CHR 0xB4]"

definition yellowCircle :: string where
  "yellowCircle = [CHR 0xF0, CHR 0x9F, CHR 0x9F, CHR 0xA1]"

text \<open>Lines 65-83.\<close>

definition priorityOf :: "report \<Rightarrow> report \<Rightarrow> report \<Rightarrow> report \<Rightarrow> string list" where
  "priorityOf dmarcResult spfResult dkimResult mxResult =
     (if \<not> success dmarcResult then
        [redCircle @ '' CRITICAL: Set up DMARC policy to prevent email spoofing'']
      else if parsedP dmarcResult = Some ''none'' then
        [yellowCircle @
         '' IMPORTANT: Upgrade DMARC policy from \"none\" to \"quarantine\" or \"reject\"'']
      else []) @
     (if \<not> success spfResult then
        [redCircle @ '' CRITICAL: Configure SPF record to authorize mail servers'']
      else []) @
     (if \<not> success dkimResult then
        [yellowCircle @ '' IMPORTANT: Enable DKIM signing for email authentication'']
      else []) @
     (if \<not> success mxResult then
        [redCircle @ '' CRITICAL: Configure MX records for email delivery'']
      else [])"

record summary =
  totalChecks :: nat
  passedChecks :: nat
  allWarnings :: "string list"
  allRecommendations :: "string list"
  priorityRecommendations :: "string list"

record aggregateReport =
  analyzedDomain :: string
  dmarc :: report
  spf :: report
  dkim :: report
  mx :: report
  overallScore :: Score
  summary :: summary

text \<open>
  \<^verbatim>\<open>analyzeEmailSecurity(domain, dkimSelector)\<close>, lines 8-104. The four arguments after the
  domain are what the four analyzer calls of lines 10-13 settled to, in that order.
\<close>

definition analyzeEmailSecurity ::
  "string \<Rightarrow> settled \<Rightarrow> settled \<Rightarrow> settled \<Rightarrow> settled \<Rightarrow> aggregateReport" where
  "analyzeEmailSecurity dn dmarcSettled spfSettled dkimSettled mxSettled =
     (let dmarcResult = settledReport dmarcSettled;
          spfResult = settledReport spfSettled;
          dkimResult = settledReport dkimSettled;
          mxResult = settledReport mxSettled;
          overall = overallOf (scoreSums dmarcResult spfResult dkimResult mxResult)
      in \<lparr>analyzedDomain = dn,
          dmarc = dmarcResult,
          spf = spfResult,
          dkim = dkimResult,
          mx = mxResult,
          overallScore =
            \<lparr>scoreValue = jsRound (overall * 10) / 10, outOf = 10,
             level = overallSecurityLevel overall, details = None\<rparr>,
          summary =
            \<lparr>totalChecks = 4,
             passedChecks = length (filter success [dmarcResult, spfResult, dkimResult, mxResult]),
             allWarnings =
               pushAll (warnings mxResult) (pushAll (warnings dkimResult)
                 (pushAll (warnings spfResult) (pushAll (warnings dmarcResult) []))),
             allRecommendations =
               pushAll (recommendations mxResult) (pushAll (recommendations dkimResult)
                 (pushAll (recommendations spfResult)
                   (pushAll (recommendations dmarcResult) []))),
             priorityRecommendations =
               priorityOf dmarcResult spfResult dkimResult mxResult\<rparr>\<rparr>)"

text \<open>
  The whole analysis of a domain: the SPF, DKIM and MX analyzers are the functions above,
  run on what their network calls produced; the DMARC analyzer
  (\<^verbatim>\<open>services/dmarcService.js\<close>) is only known by what it settled to.
\<close>

definition analyzeAll ::
  "string \<Rightarrow> string \<Rightarrow> settled \<Rightarrow> jsError + string list list \<Rightarrow>
   (string \<Rightarrow> jsError + spfLookup) \<Rightarrow> jsError + string list list \<Rightarrow> jsError + dkimVerdict \<Rightarrow>
   jsError + mxRecord list \<Rightarrow> aggregateReport" where
  "analyzeAll dn dkimSelector dmarcSettled spfTxt spfProbes dkimTxt dkimVerified mxResolved =
     analyzeEmailSecurity dn dmarcSettled
       (Fulfilled (analyzeSPF dn spfTxt spfProbes))
       (Fulfilled (analyzeDKIM dn dkimSelector dkimTxt dkimVerified))
       (Fulfilled (analyzeMX dn mxResolved))"

subsection \<open>The specification's notions\<close>

text \<open>
  The specification's Score invariant: \<open>0 \<le> value \<le> outOf\<close>; a report respects it when
  the score it carries, if any, does.
\<close>

definition scoreInRange :: "Score \<Rightarrow> bool" where
  "scoreInRange s = (0 \<le> scoreValue s \<and> scoreValue s \<le> outOf s)"

definition reportInRange :: "report \<Rightarrow> bool" where
  "reportInRange r = (case score r of None \<Rightarrow> True | Some s \<Rightarrow> scoreInRange s)"

text \<open>
  The specification's bands on the ratio \<open>value / outOf\<close>: at least 80% excellent, at
  least 60% good, at least 40% fair, else poor.
\<close>

definition bandLevel :: "real \<Rightarrow> level" where
  "bandLevel ratio =
     (if ratio \<ge> 80 / 100 then Excellent
      else if ratio \<ge> 60 / 100 then Good
      else if ratio \<ge> 40 / 100 then Fair
      else Poor)"

text \<open>
  The specification's overall score: only the reports that both succeeded and carry a
  score contribute; the sum of their values over the sum of their scales, times ten,
  rounded to one decimal; zero when no report contributes.
\<close>

definition contributes :: "report \<Rightarrow> bool" where
  "contributes r = (success r \<and> score r \<noteq> None)"

definition achieved :: "report list \<Rightarrow> real" where
  "achieved rs =
     sum_list (map (\<lambda>r. case score r of None \<Rightarrow> 0 | Some s \<Rightarrow> scoreValue s)
       (filter contributes rs))"

definition applicable :: "report list \<Rightarrow> real" where
  "applicable rs =
     sum_list (map (\<lambda>r. case score r of None \<Rightarrow> 0 | Some s \<Rightarrow> outOf s)
       (filter contributes rs))"

definition specOverall :: "report list \<Rightarrow> real" where
  "specOverall rs =
     (if filter contributes rs = [] then 0
      else jsRound ((achieved rs / applicable rs) * 10 * 10) / 10)"

text \<open>Every contributing report has a positive scale.\<close>

definition positiveScales :: "report list \<Rightarrow> bool" where
  "positiveScales rs =
     list_all (\<lambda>r. case score r of None \<Rightarrow> True | Some s \<Rightarrow> contributes r \<longrightarrow> 0 < outOf s) rs"

text \<open>The texts that only the lookup-limit rules of the SPF analysis produce.\<close>

definition isLimitText :: "string \<Rightarrow> bool" where
  "isLimitText s =
     (startsWith s ''Fatal: Exceeded'' \<or> startsWith s ''Approaching DNS lookup limit''
      \<or> startsWith s ''Reduce DNS lookups'' \<or> startsWith s ''Consider optimizing''
      \<or> startsWith s ''Currently using'')"

section \<open>Properties\<close>

subsection \<open>Rate limiter\<close>

lemma checkRateLimit_fresh:
  assumes "freshAt store (clientIp req) t"
  shows "\<exists>u. checkRateLimit req t store =
            (Admitted 9, store(clientIp req \<mapsto> u)) \<and> count u = 1 \<and> resetTime u = t + window"
  using assms
  by (auto simp: checkRateLimit_def freshAt_def limit_def Let_def split: option.splits)

lemma checkRateLimit_inside:
  assumes "store (clientIp req) = Some u" "t \<le> resetTime u" "count u < limit"
  shows "checkRateLimit req t store =
           (Admitted (limit - (count u + 1)),
            store(clientIp req \<mapsto> u\<lparr>count := count u + 1\<rparr>))"
  using assms by (simp add: checkRateLimit_def Let_def)

lemma checkRateLimit_full:
  assumes "store (clientIp req) = Some u" "t \<le> resetTime u" "count u \<ge> limit"
  shows "checkRateLimit req t store =
           (Refused ''Too many requests. Please try again later.'' (resetTime u), store)"
  using assms by (simp add: checkRateLimit_def Let_def)

lemma checkRateLimit_expired:
  assumes "store (clientIp req) = Some u" "t > resetTime u"
  shows "checkRateLimit req t store =
           (Admitted 9, store(clientIp req \<mapsto> u\<lparr>count := 1, resetTime := t + window\<rparr>))"
  using assms by (simp add: checkRateLimit_def Let_def limit_def)

text \<open>Calls by other callers and the periodic sweep leave a caller's running window alone.\<close>

lemma checkRateLimit_other_caller:
  assumes "clientIp req' \<noteq> a"
  shows "snd (checkRateLimit req' t store) a = store a"
  using assms by (simp add: checkRateLimit_def Let_def split: option.splits)

lemma sweep_inside_window:
  assumes "store a = Some u" "now \<le> resetTime u"
  shows "sweep now store a = Some u"
  using assms by (simp add: sweep_def)

text \<open>
  Inside one window, starting from a count \<open>c\<close> with room for all the calls, every call
  is admitted and the count grows by the number of calls.
\<close>

lemma checkAll_inside:
  assumes "store (clientIp req) = Some u"
    and "\<forall>t \<in> set ts. t \<le> resetTime u"
    and "count u + int (length ts) \<le> limit"
  shows "\<exists>rs store'. checkAll req ts store = (rs, store') \<and>
           length rs = length ts \<and> (\<forall>r \<in> set rs. allowed r) \<and>
           store' (clientIp req) = Some (u\<lparr>count := count u + int (length ts)\<rparr>)"
  using assms
proof (induction ts arbitrary: store u)
  case Nil
  then show ?case by simp
next
  case (Cons t ts)
  let ?u = "u\<lparr>count := count u + 1\<rparr>"
  let ?s = "store(clientIp req \<mapsto> ?u)"
  have lt: "count u < limit" using Cons.prems(3) by simp
  have step: "checkRateLimit req t store = (Admitted (limit - (count u + 1)), ?s)"
    using checkRateLimit_inside [where store = store and req = req and u = u and t = t]
      Cons.prems(1,2) lt by simp
  have "\<exists>rs store'. checkAll req ts ?s = (rs, store') \<and>
           length rs = length ts \<and> (\<forall>r \<in> set rs. allowed r) \<and>
           store' (clientIp req) = Some (?u\<lparr>count := count ?u + int (length ts)\<rparr>)"
    using Cons.prems by (intro Cons.IH) auto
  then obtain rs store' where rest: "checkAll req ts ?s = (rs, store')"
    "length rs = length ts" "\<forall>r \<in> set rs. allowed r"
    "store' (clientIp req) = Some (?u\<lparr>count := count ?u + int (length ts)\<rparr>)"
    by blast
  have "checkAll req (t # ts) store = (Admitted (limit - (count u + 1)) # rs, store')"
    using step rest(1) by simp
  moreover have "store' (clientIp req) = Some (u\<lparr>count := count u + int (length (t # ts))\<rparr>)"
    using rest(4) by (simp add: algebra_simps)
  ultimately show ?case
    using rest(2,3) by (simp add: allowed_def)
qed

text \<open>
  Claim C9. A caller that starts a fresh window at time \<open>t1\<close> and calls ten more times
  with clock readings inside that window (none later than \<open>t1 + window\<close>) is admitted
  on the first ten calls and refused on the eleventh, the refusal carrying the window's
  reset time \<open>t1 + window\<close>; a following call at a time after that reset time is admitted
  again and leaves the ledger entry at count 1 with a new window.
\<close>

theorem rate_limit_window:
  assumes fresh: "freshAt store (clientIp req) t1"
    and len: "length ts = 9"
    and inside: "\<forall>t \<in> set (ts @ [t11]). t \<le> t1 + window"
    and after: "t' > t1 + window"
  shows "\<exists>rs r11 store' r' store''.
           checkAll req (t1 # ts @ [t11]) store = (rs @ [r11], store') \<and>
           length rs = 10 \<and> list_all allowed rs \<and>
           \<not> allowed r11 \<and> refusedUntil r11 = t1 + window \<and>
           checkRateLimit req t' store' = (r', store'') \<and>
           allowed r' \<and>
           store'' (clientIp req) = Some \<lparr>count = 1, resetTime = t' + window\<rparr>"
proof -
  let ?a = "clientIp req"
  obtain u where first: "checkRateLimit req t1 store = (Admitted 9, store(?a \<mapsto> u))"
    and u: "count u = 1" "resetTime u = t1 + window"
    using checkRateLimit_fresh [where store = store and req = req and t = t1] fresh by blast
  let ?s1 = "store(?a \<mapsto> u)"
  have "\<exists>rs store'. checkAll req ts ?s1 = (rs, store') \<and>
           length rs = length ts \<and> (\<forall>r \<in> set rs. allowed r) \<and>
           store' ?a = Some (u\<lparr>count := count u + int (length ts)\<rparr>)"
    using inside u len by (intro checkAll_inside) (auto simp: limit_def)
  then obtain rs s2 where mid: "checkAll req ts ?s1 = (rs, s2)" "length rs = length ts"
    "\<forall>r \<in> set rs. allowed r" "s2 ?a = Some (u\<lparr>count := 10\<rparr>)"
    using u len by auto
  let ?u10 = "u\<lparr>count := 10\<rparr>"
  let ?r11 = "Refused ''Too many requests. Please try again later.'' (t1 + window)"
  have eleventh: "checkRateLimit req t11 s2 = (?r11, s2)"
    using checkRateLimit_full [where store = s2 and req = req and u = ?u10 and t = t11]
      mid(4) inside u by (simp add: limit_def)
  have split: "checkAll req (xs @ [t]) s =
      (let (rs, s') = checkAll req xs s; (r, s'') = checkRateLimit req t s' in (rs @ [r], s''))"
    for xs t s
    by (induction xs arbitrary: s) (auto split: prod.splits)
  have run: "checkAll req (t1 # ts @ [t11]) store = ((Admitted 9 # rs) @ [?r11], s2)"
    using first mid(1) eleventh by (simp add: split)
  have last: "checkRateLimit req t' s2 =
      (Admitted 9, s2(?a \<mapsto> ?u10\<lparr>count := 1, resetTime := t' + window\<rparr>))"
    using checkRateLimit_expired [where store = s2 and req = req and u = ?u10 and t = t']
      mid(4) after u by simp
  have entry: "(s2(?a \<mapsto> ?u10\<lparr>count := 1, resetTime := t' + window\<rparr>)) ?a =
      Some \<lparr>count = 1, resetTime = t' + window\<rparr>"
    by simp
  have ten: "length (Admitted 9 # rs) = 10" "list_all allowed (Admitted 9 # rs)"
    using mid(2,3) len by (simp_all add: allowed_def list_all_iff)
  have eleven: "\<not> allowed ?r11" "refusedUntil ?r11 = t1 + window"
    by (simp_all add: allowed_def)
  have again: "allowed (Admitted 9)"
    by (simp add: allowed_def)
  from run ten eleven last again entry show ?thesis
    by blast
qed

theorem rate_limit_window_witness:
  "freshAt Map.empty (clientIp \<lparr>ip = Some ''203.0.113.7'', connection_remoteAddress = None,
       socket_remoteAddress = None\<rparr>) 5000 \<and>
   length [5001, 5002, 5003, 5004, 5005, 5006, 5007, 5008, 5009 :: int] = 9 \<and>
   list_all (\<lambda>t. t \<le> 5000 + window)
     ([5001, 5002, 5003, 5004, 5005, 5006, 5007, 5008, 5009] @ [65000]) \<and>
   (65001 :: int) > 5000 + window \<and>
   (\<exists>rs r11 store' r' store''.
      checkAll \<lparr>ip = Some ''203.0.113.7'', connection_remoteAddress = None,
          socket_remoteAddress = None\<rparr>
        (5000 # [5001, 5002, 5003, 5004, 5005, 5006, 5007, 5008, 5009] @ [65000]) Map.empty =
        (rs @ [r11], store') \<and>
      length rs = 10 \<and> list_all allowed rs \<and>
      \<not> allowed r11 \<and> refusedUntil r11 = 5000 + window \<and>
      checkRateLimit \<lparr>ip = Some ''203.0.113.7'', connection_remoteAddress = None,
          socket_remoteAddress = None\<rparr> 65001 store' = (r', store'') \<and>
      allowed r' \<and>
      store'' (clientIp \<lparr>ip = Some ''203.0.113.7'', connection_remoteAddress = None,
          socket_remoteAddress = None\<rparr>) = Some \<lparr>count = 1, resetTime = 65001 + window\<rparr>)"
proof -
  let ?req = "\<lparr>ip = Some ''203.0.113.7'', connection_remoteAddress = None,
       socket_remoteAddress = None\<rparr>"
  let ?ts = "[5001, 5002, 5003, 5004, 5005, 5006, 5007, 5008, 5009 :: int]"
  have h1: "freshAt Map.empty (clientIp ?req) 5000"
    by (simp add: freshAt_def)
  have h2: "length ?ts = 9"
    by simp
  have h3: "\<forall>t \<in> set (?ts @ [65000]). t \<le> 5000 + window"
    by (simp add: window_def)
  have h4: "(65001 :: int) > 5000 + window"
    by (simp add: window_def)
  have h3': "list_all (\<lambda>t. t \<le> 5000 + window) (?ts @ [65000])"
    using h3 by (simp only: list_all_iff)
  from h1 h2 h3' h4 rate_limit_window [OF h1 h2 h3 h4] show ?thesis
    by blast
qed

subsection \<open>Aggregation\<close>

lemma addScore_eq:
  "addScore r (t, m) =
     (t + (if contributes r then (case score r of None \<Rightarrow> 0 | Some s \<Rightarrow> scoreValue s) else 0),
      m + (if contributes r then (case score r of None \<Rightarrow> 0 | Some s \<Rightarrow> outOf s) else 0))"
  by (simp add: addScore_def contributes_def split: option.splits)

lemma scoreSums_eq:
  "scoreSums r1 r2 r3 r4 = (achieved [r1, r2, r3, r4], applicable [r1, r2, r3, r4])"
  by (simp add: scoreSums_def addScore_eq achieved_def applicable_def)

lemma sum_list_pos:
  fixes f :: "'a \<Rightarrow> real"
  assumes "xs \<noteq> []" "\<forall>x \<in> set xs. 0 < f x"
  shows "0 < sum_list (map f xs)"
  using assms
proof (induction xs)
  case Nil
  then show ?case by simp
next
  case (Cons x xs)
  show ?case
  proof (cases xs)
    case Nil
    then show ?thesis using Cons.prems by simp
  next
    case (Cons y ys)
    then have "0 < sum_list (map f xs)"
      using Cons.IH Cons.prems by simp
    moreover have "0 < f x"
      using Cons.prems by simp
    ultimately show ?thesis by simp
  qed
qed

lemma applicable_pos:
  assumes "positiveScales rs" "filter contributes rs \<noteq> []"
  shows "0 < applicable rs"
proof -
  have "0 < (case score r of None \<Rightarrow> 0 | Some s \<Rightarrow> outOf s)"
    if "r \<in> set (filter contributes rs)" for r
  proof -
    from that have r: "r \<in> set rs" "contributes r" by simp_all
    then obtain s where s: "score r = Some s"
      by (auto simp: contributes_def)
    from assms(1) r(1) have "case score r of None \<Rightarrow> True | Some s \<Rightarrow> contributes r \<longrightarrow> 0 < outOf s"
      unfolding positiveScales_def list_all_iff by blast
    with s r(2) show ?thesis by simp
  qed
  then have "\<forall>r \<in> set (filter contributes rs).
      0 < (case score r of None \<Rightarrow> 0 | Some s \<Rightarrow> outOf s)"
    by blast
  from sum_list_pos [OF assms(2) this] show ?thesis
    by (simp only: applicable_def)
qed

lemma applicable_none:
  "filter contributes rs = [] \<Longrightarrow> applicable rs = 0"
  by (simp add: applicable_def)

lemma overall_value_eq:
  assumes "positiveScales [r1, r2, r3, r4]"
  shows "jsRound (overallOf (scoreSums r1 r2 r3 r4) * 10) / 10 = specOverall [r1, r2, r3, r4]"
proof (cases "filter contributes [r1, r2, r3, r4] = []")
  case True
  then show ?thesis
    by (simp add: scoreSums_eq overallOf_def specOverall_def applicable_none jsRound_def
        del: filter.simps)
next
  case False
  then have "0 < applicable [r1, r2, r3, r4]"
    using assms applicable_pos by blast
  with False show ?thesis
    by (simp add: scoreSums_eq overallOf_def specOverall_def del: filter.simps)
qed

lemma full_marks:
  assumes "list_all (\<lambda>r. \<forall>s. score r = Some s \<longrightarrow> scoreValue s = outOf s) rs"
  shows "achieved rs = applicable rs"
  using assms
  by (induction rs) (auto simp: achieved_def applicable_def split: option.splits)

lemma some_contributes:
  "list_ex contributes rs \<Longrightarrow> filter contributes rs \<noteq> []"
  by (induction rs) auto

lemma all_failed:
  assumes "list_all (\<lambda>r. \<not> success r) rs"
  shows "filter contributes rs = []"
  using assms by (induction rs) (auto simp: contributes_def)

lemma placeholder_eq:
  "placeholder e =
     \<lparr>success = False, error = Some (message e), domain = None, rawRecord = None,
      warnings = None, recommendations = None, score = None, parsedP = None, lookups = None,
      policy = None, mechanisms = None, ipTestResults = None, spfMailauthResult = None,
      selector = None, checkedRecord = None, dkimMailauthResult = None, records = None\<rparr>"
  by (simp add: placeholder_def noProperties_def)

lemma aggregate_slots:
  "dmarc (analyzeEmailSecurity dn a b c d) = settledReport a"
  "spf (analyzeEmailSecurity dn a b c d) = settledReport b"
  "dkim (analyzeEmailSecurity dn a b c d) = settledReport c"
  "mx (analyzeEmailSecurity dn a b c d) = settledReport d"
  "passedChecks (summary (analyzeEmailSecurity dn a b c d)) =
     length (filter success [settledReport a, settledReport b, settledReport c, settledReport d])"
  by (simp_all add: analyzeEmailSecurity_def Let_def)

lemma score_analyzeSPF:
  "score (analyzeSPF dn resolved probe) = None"
  by (simp add: analyzeSPF_def spfNotFound_def spfFailed_def spfMultiple_def noProperties_def
      Let_def split: sum.splits)

text \<open>
  Claim C1. When every contributing report (one that succeeded and carries a score) has a
  positive scale, the overall score value is the specification's: the sum of the
  contributing values over the sum of the contributing scales, times ten, rounded to one
  decimal, and zero when no report contributes. In particular it is 10 when every score
  carried is at full marks and at least one report contributes (so when all four
  reports succeeded, each with a score at full marks), and 0 when all four failed.
\<close>

theorem overall_score_formula:
  assumes "positiveScales [settledReport a, settledReport b, settledReport c, settledReport d]"
  shows "scoreValue (overallScore (analyzeEmailSecurity dn a b c d)) =
           specOverall [settledReport a, settledReport b, settledReport c, settledReport d]
         \<and> (list_all (\<lambda>r. \<forall>s. score r = Some s \<longrightarrow> scoreValue s = outOf s)
              [settledReport a, settledReport b, settledReport c, settledReport d]
            \<and> list_ex contributes
              [settledReport a, settledReport b, settledReport c, settledReport d]
            \<longrightarrow> scoreValue (overallScore (analyzeEmailSecurity dn a b c d)) = 10)
         \<and> (list_all (\<lambda>r. success r \<and> (\<exists>s. score r = Some s \<and> scoreValue s = outOf s))
              [settledReport a, settledReport b, settledReport c, settledReport d]
            \<longrightarrow> scoreValue (overallScore (analyzeEmailSecurity dn a b c d)) = 10)
         \<and> (list_all (\<lambda>r. \<not> success r)
              [settledReport a, settledReport b, settledReport c, settledReport d]
            \<longrightarrow> scoreValue (overallScore (analyzeEmailSecurity dn a b c d)) = 0)"
proof -
  let ?rs = "[settledReport a, settledReport b, settledReport c, settledReport d]"
  let ?v = "scoreValue (overallScore (analyzeEmailSecurity dn a b c d))"
  have eq: "?v = specOverall ?rs"
    using overall_value_eq [OF assms] by (simp add: analyzeEmailSecurity_def Let_def)
  have full: "?v = 10"
    if h: "list_all (\<lambda>r. \<forall>s. score r = Some s \<longrightarrow> scoreValue s = outOf s) ?rs"
      and c: "list_ex contributes ?rs"
  proof -
    have f: "achieved ?rs = applicable ?rs"
      by (rule full_marks [OF h])
    have ne: "filter contributes ?rs \<noteq> []"
      by (rule some_contributes [OF c])
    then have "0 < applicable ?rs"
      by (rule applicable_pos [OF assms])
    then have "specOverall ?rs = jsRound (1 * 10 * 10) / 10"
      unfolding specOverall_def using f ne by (simp del: filter.simps)
    then show ?thesis
      using eq by (simp add: jsRound_def)
  qed
  have all_full: "?v = 10"
    if h: "list_all (\<lambda>r. success r \<and> (\<exists>s. score r = Some s \<and> scoreValue s = outOf s)) ?rs"
  proof -
    from h have "list_all (\<lambda>r. \<forall>s. score r = Some s \<longrightarrow> scoreValue s = outOf s) ?rs"
      by auto
    moreover from h have "list_ex contributes ?rs"
      by (auto simp: contributes_def)
    ultimately show ?thesis
      by (rule full)
  qed
  have none: "?v = 0" if h: "list_all (\<lambda>r. \<not> success r) ?rs"
    using eq all_failed [OF h] by (simp add: specOverall_def del: filter.simps)
  from eq full all_full none show ?thesis
    by blast
qed

theorem overall_score_formula_witness:
  "positiveScales
     [settledReport (Fulfilled (noProperties\<lparr>success := True,
        score := Some \<lparr>scoreValue = 3, outOf = 5, level = Good, details = None\<rparr>\<rparr>)),
      settledReport (Fulfilled (noProperties\<lparr>success := True\<rparr>)),
      settledReport (Rejected \<lparr>code = None, message = ''timeout''\<rparr>),
      settledReport (Fulfilled (noProperties\<lparr>success := True,
        score := Some \<lparr>scoreValue = 2, outOf = 3, level = Good, details = None\<rparr>\<rparr>))] \<and>
   scoreValue (overallScore (analyzeEmailSecurity ''example.com''
     (Fulfilled (noProperties\<lparr>success := True,
        score := Some \<lparr>scoreValue = 3, outOf = 5, level = Good, details = None\<rparr>\<rparr>))
     (Fulfilled (noProperties\<lparr>success := True\<rparr>))
     (Rejected \<lparr>code = None, message = ''timeout''\<rparr>)
     (Fulfilled (noProperties\<lparr>success := True,
        score := Some \<lparr>scoreValue = 2, outOf = 3, level = Good, details = None\<rparr>\<rparr>)))) = 63 / 10"
proof -
  let ?a = "Fulfilled (noProperties\<lparr>success := True,
        score := Some \<lparr>scoreValue = 3, outOf = 5, level = Good, details = None\<rparr>\<rparr>)"
  let ?b = "Fulfilled (noProperties\<lparr>success := True\<rparr>)"
  let ?c = "Rejected \<lparr>code = None, message = ''timeout''\<rparr>"
  let ?d = "Fulfilled (noProperties\<lparr>success := True,
        score := Some \<lparr>scoreValue = 2, outOf = 3, level = Good, details = None\<rparr>\<rparr>)"
  have h: "positiveScales [settledReport ?a, settledReport ?b, settledReport ?c, settledReport ?d]"
    by (simp add: positiveScales_def settledReport_def placeholder_def noProperties_def)
  have "specOverall [settledReport ?a, settledReport ?b, settledReport ?c, settledReport ?d] = 63 / 10"
    by (simp add: specOverall_def achieved_def applicable_def contributes_def settledReport_def
        placeholder_def noProperties_def jsRound_def)
  with h overall_score_formula [OF h, of "''example.com''"] show ?thesis
    by simp
qed

text \<open>
  Claim C2. Whatever the four analyzer calls settled to, each slot of the aggregate report
  is the report its analyzer resolved to, unchanged, or, for a rejected analyzer, the
  placeholder \<^verbatim>\<open>{ success: false, error: reason.message }\<close> and nothing else;
  \<open>passedChecks\<close> is the number of the four slots whose \<open>success\<close> is true. In particular,
  when the DMARC analysis rejects, the SPF, DKIM and MX reports are those of their
  analyzers and \<open>passedChecks\<close> counts the successes among these three.
\<close>

theorem rejected_analyzer_isolated:
  "(let R = analyzeEmailSecurity dn a b c d in
      (\<forall>v. a = Fulfilled v \<longrightarrow> dmarc R = v) \<and> (\<forall>e. a = Rejected e \<longrightarrow> dmarc R = placeholder e) \<and>
      (\<forall>v. b = Fulfilled v \<longrightarrow> spf R = v) \<and> (\<forall>e. b = Rejected e \<longrightarrow> spf R = placeholder e) \<and>
      (\<forall>v. c = Fulfilled v \<longrightarrow> dkim R = v) \<and> (\<forall>e. c = Rejected e \<longrightarrow> dkim R = placeholder e) \<and>
      (\<forall>v. d = Fulfilled v \<longrightarrow> mx R = v) \<and> (\<forall>e. d = Rejected e \<longrightarrow> mx R = placeholder e) \<and>
      passedChecks (summary R) = length (filter success [dmarc R, spf R, dkim R, mx R]))
   \<and> placeholder e =
       \<lparr>success = False, error = Some (message e), domain = None, rawRecord = None,
        warnings = None, recommendations = None, score = None, parsedP = None,
        lookups = None, policy = None, mechanisms = None, ipTestResults = None,
        spfMailauthResult = None, selector = None, checkedRecord = None,
        dkimMailauthResult = None, records = None\<rparr>
   \<and> (let R = analyzeAll dn sel (Rejected e) spfTxt spfProbes dkimTxt dkimVerified mxResolved in
        dmarc R = placeholder e \<and>
        spf R = analyzeSPF dn spfTxt spfProbes \<and>
        dkim R = analyzeDKIM dn sel dkimTxt dkimVerified \<and>
        mx R = analyzeMX dn mxResolved \<and>
        passedChecks (summary R) =
          length (filter success [analyzeSPF dn spfTxt spfProbes,
            analyzeDKIM dn sel dkimTxt dkimVerified, analyzeMX dn mxResolved]))"
proof -
  have p: "\<not> success (placeholder e)"
    by (simp add: placeholder_def)
  show ?thesis
    unfolding Let_def analyzeAll_def aggregate_slots
    using p by (simp add: settledReport_def placeholder_eq)
qed

theorem rejected_analyzer_isolated_witness:
  "dmarc (analyzeEmailSecurity ''example.com''
       (Rejected \<lparr>code = Some ''ETIMEOUT'', message = ''queryTxt ETIMEOUT _dmarc.example.com''\<rparr>)
       (Fulfilled (spfNotFound ''example.com''))
       (Fulfilled (dkimNotFound ''example.com'' ''default''))
       (Fulfilled (analyzeMX ''example.com'' (Inr [\<lparr>priority = 10, exchange = ''mx.example.com''\<rparr>]))))
     = placeholder \<lparr>code = Some ''ETIMEOUT'', message = ''queryTxt ETIMEOUT _dmarc.example.com''\<rparr>
   \<and> spf (analyzeEmailSecurity ''example.com''
       (Rejected \<lparr>code = Some ''ETIMEOUT'', message = ''queryTxt ETIMEOUT _dmarc.example.com''\<rparr>)
       (Fulfilled (spfNotFound ''example.com''))
       (Fulfilled (dkimNotFound ''example.com'' ''default''))
       (Fulfilled (analyzeMX ''example.com'' (Inr [\<lparr>priority = 10, exchange = ''mx.example.com''\<rparr>]))))
     = spfNotFound ''example.com''
   \<and> passedChecks (summary (analyzeEmailSecurity ''example.com''
       (Rejected \<lparr>code = Some ''ETIMEOUT'', message = ''queryTxt ETIMEOUT _dmarc.example.com''\<rparr>)
       (Fulfilled (spfNotFound ''example.com''))
       (Fulfilled (dkimNotFound ''example.com'' ''default''))
       (Fulfilled (analyzeMX ''example.com'' (Inr [\<lparr>priority = 10, exchange = ''mx.example.com''\<rparr>])))))
     = 1"
proof -
  let ?e = "\<lparr>code = Some ''ETIMEOUT'', message = ''queryTxt ETIMEOUT _dmarc.example.com''\<rparr>"
  let ?m = "analyzeMX ''example.com'' (Inr [\<lparr>priority = 10, exchange = ''mx.example.com''\<rparr>])"
  let ?R = "analyzeEmailSecurity ''example.com'' (Rejected ?e)
       (Fulfilled (spfNotFound ''example.com''))
       (Fulfilled (dkimNotFound ''example.com'' ''default'')) (Fulfilled ?m)"
  have slots: "dmarc ?R = placeholder ?e" "spf ?R = spfNotFound ''example.com''"
    "dkim ?R = dkimNotFound ''example.com'' ''default''" "mx ?R = ?m"
    "passedChecks (summary ?R) = length (filter success [dmarc ?R, spf ?R, dkim ?R, mx ?R])"
    using rejected_analyzer_isolated [of "''example.com''" "Rejected ?e"
        "Fulfilled (spfNotFound ''example.com'')"
        "Fulfilled (dkimNotFound ''example.com'' ''default'')" "Fulfilled ?m"]
    unfolding Let_def by blast+
  have s: "\<not> success (placeholder ?e)" "\<not> success (spfNotFound ''example.com'')"
    "\<not> success (dkimNotFound ''example.com'' ''default'')" "success ?m"
    by (simp_all add: placeholder_def spfNotFound_def dkimNotFound_def analyzeMX_def Let_def)
  have "passedChecks (summary ?R) = 1"
    unfolding slots using s by simp
  with slots(1,2) show ?thesis
    by blast
qed

text \<open>
  Claim C10. No report of \<^verbatim>\<open>analyzeSPF\<close>, successful or not, carries a score; so the SPF
  slot leaves both running sums of \<^verbatim>\<open>analyzeEmailSecurity\<close> as they are, and the overall
  score is computed from the DMARC, DKIM and MX reports alone.
\<close>

theorem spf_never_scores:
  "score (analyzeSPF dn resolved probe) = None
   \<and> addScore (analyzeSPF dn resolved probe) (t, m) = (t, m)
   \<and> scoreSums dmarcResult (analyzeSPF dn resolved probe) dkimResult mxResult =
       addScore mxResult (addScore dkimResult (addScore dmarcResult (0, 0)))
   \<and> scoreValue (overallScore (analyzeEmailSecurity dn a (Fulfilled (analyzeSPF dn resolved probe)) c d)) =
       jsRound (overallOf (addScore (settledReport d) (addScore (settledReport c)
         (addScore (settledReport a) (0, 0)))) * 10) / 10"
proof -
  have none: "score (analyzeSPF dn resolved probe) = None"
    by (rule score_analyzeSPF)
  have skip: "addScore (analyzeSPF dn resolved probe) acc = acc" for acc
    by (cases acc) (simp add: addScore_def none)
  have sums: "scoreSums r1 (analyzeSPF dn resolved probe) r3 r4 =
      addScore r4 (addScore r3 (addScore r1 (0, 0)))" for r1 r3 r4
    by (simp only: scoreSums_def skip)
  have "scoreValue (overallScore (analyzeEmailSecurity dn a (Fulfilled (analyzeSPF dn resolved probe)) c d)) =
      jsRound (overallOf (scoreSums (settledReport a) (analyzeSPF dn resolved probe)
        (settledReport c) (settledReport d)) * 10) / 10"
    by (simp add: analyzeEmailSecurity_def Let_def settledReport_def)
  with none skip sums show ?thesis
    by simp
qed

theorem spf_never_scores_witness:
  "score (analyzeSPF ''example.com'' (Inr [[''v=spf1 include:_spf.example.net '', ''-all'']])
     (\<lambda>testIP. Inl \<lparr>code = None, message = ''unreachable''\<rparr>)) = None
   \<and> success (analyzeSPF ''example.com'' (Inr [[''v=spf1 include:_spf.example.net '', ''-all'']])
     (\<lambda>testIP. Inl \<lparr>code = None, message = ''unreachable''\<rparr>))"
proof -
  have "success (analyzeSPF ''example.com'' (Inr [[''v=spf1 include:_spf.example.net '', ''-all'']])
     (\<lambda>testIP. Inl \<lparr>code = None, message = ''unreachable''\<rparr>))"
    by (simp add: analyzeSPF_def Let_def toLowerCase_def toLowerChar_def)
  with spf_never_scores [of "''example.com''"
      "Inr [[''v=spf1 include:_spf.example.net '', ''-all'']]"
      "\<lambda>testIP. Inl \<lparr>code = None, message = ''unreachable''\<rparr>"]
  show ?thesis by blast
qed

subsection \<open>MX analysis\<close>

lemma unique_priorities:
  "(length (remdups (map priority rs)) = length rs) = distinct (map priority rs)"
  using length_remdups_eq [of "map priority rs"] remdups_id_iff_distinct [of "map priority rs"]
  by simp

lemma mxPresent_fields:
  "base (mxPresent t) = base t + 1"
  "warns (mxPresent t) = warns t"
  "recs (mxPresent t) = recs t"
  by (simp_all add: mxPresent_def)

lemma mxRedundancy_fields:
  "base (mxRedundancy rs t) = base t + (if length rs \<ge> 2 then 1 else 0)"
  "warns (mxRedundancy rs t) = warns t"
  "recs (mxRedundancy rs t) =
     recs t @ (if length rs \<ge> 2 then [] else [''Consider adding backup MX records for redundancy''])"
  by (simp_all add: mxRedundancy_def)

lemma mxPriorities_fields:
  "base (mxPriorities rs t) = base t + (if distinct (map priority rs) then 1 else 0)"
  "warns (mxPriorities rs t) =
     warns t @ (if distinct (map priority rs) then []
                else [''Some MX records have the same priority''])"
  "recs (mxPriorities rs t) =
     recs t @ (if distinct (map priority rs) then []
               else [''Use unique priority values for better load balancing''])"
  by (simp_all add: mxPriorities_def Let_def unique_priorities)

lemma mxProviders_fields:
  "base (mxProviders rs t) = base t"
  "warns (mxProviders rs t) = warns t"
  "recs (mxProviders rs t) = recs t"
  by (simp_all add: mxProviders_def Let_def)

lemma mxLowPriority_fields:
  "base (mxLowPriority rs t) = base t"
  "warns (mxLowPriority rs t) =
     warns t @ (if list_ex (\<lambda>r. priority r = 0) rs
                then [''Priority 0 detected - ensure this is intentional''] else [])"
  "recs (mxLowPriority rs t) = recs t"
  by (simp_all add: mxLowPriority_def)

lemma mxHighPriority_fields:
  "base (mxHighPriority rs t) = base t"
  "warns (mxHighPriority rs t) = warns t"
  "recs (mxHighPriority rs t) =
     recs t @ (if list_ex (\<lambda>r. priority r > 50) rs
               then [''Consider using lower priority values (closer to 0) for better delivery'']
               else [])"
  by (simp_all add: mxHighPriority_def)

lemma mxNull_fields:
  "base (mxNull rs t) = (if hasNullMx rs \<and> length rs = 1 then 0 else base t)"
  "warns (mxNull rs t) =
     warns t @ (if hasNullMx rs \<and> length rs = 1
                then [''Null MX record detected - this domain does not accept email'']
                else if hasNullMx rs
                then [''Mixed null and regular MX records - this configuration may cause issues'']
                else [])"
  "recs (mxNull rs t) = recs t"
  "hasNullMx rs \<and> length rs = 1 \<Longrightarrow>
     dets (mxNull rs t) = [''Null MX record - domain explicitly rejects email'']"
  "\<not> (hasNullMx rs \<and> length rs = 1) \<Longrightarrow> dets (mxNull rs t) = dets t"
  by (simp_all add: mxNull_def)

lemma base_mxTally:
  "base (mxTally rs) =
     (if hasNullMx rs \<and> length rs = 1 then 0
      else 1 + (if length rs \<ge> 2 then 1 else 0)
             + (if distinct (map priority rs) then 1 else 0))"
  unfolding mxTally_def
  by (simp only: mxNull_fields mxHighPriority_fields mxLowPriority_fields mxProviders_fields
      mxPriorities_fields mxRedundancy_fields mxPresent_fields tally.simps) simp

lemma warns_mxTally:
  "warns (mxTally rs) =
     (if distinct (map priority rs) then [] else [''Some MX records have the same priority''])
     @ (if list_ex (\<lambda>r. priority r = 0) rs
        then [''Priority 0 detected - ensure this is intentional''] else [])
     @ (if hasNullMx rs \<and> length rs = 1
        then [''Null MX record detected - this domain does not accept email'']
        else if hasNullMx rs
        then [''Mixed null and regular MX records - this configuration may cause issues'']
        else [])"
  unfolding mxTally_def
  by (simp only: mxNull_fields mxHighPriority_fields mxLowPriority_fields mxProviders_fields
      mxPriorities_fields mxRedundancy_fields mxPresent_fields tally.simps append_Nil append_assoc)

lemma recs_mxTally:
  "recs (mxTally rs) =
     (if length rs \<ge> 2 then [] else [''Consider adding backup MX records for redundancy''])
     @ (if distinct (map priority rs) then []
        else [''Use unique priority values for better load balancing''])
     @ (if list_ex (\<lambda>r. priority r > 50) rs
        then [''Consider using lower priority values (closer to 0) for better delivery'']
        else [])"
  unfolding mxTally_def
  by (simp only: mxNull_fields mxHighPriority_fields mxLowPriority_fields mxProviders_fields
      mxPriorities_fields mxRedundancy_fields mxPresent_fields tally.simps append_Nil append_assoc)

lemma single_record_distinct:
  "length rs = 1 \<Longrightarrow> distinct (map priority rs)"
  by (cases rs) auto

lemma two_or_more:
  "rs \<noteq> [] \<Longrightarrow> length rs \<noteq> 1 \<Longrightarrow> 2 \<le> length rs"
  by (cases rs) (auto simp: Suc_le_eq)

lemma base_mxTally_cases:
  assumes "rs \<noteq> []"
  shows "base (mxTally rs) = 0 \<and> hasNullMx rs \<and> length rs = 1
       \<or> base (mxTally rs) = 2 \<or> base (mxTally rs) = 3"
proof (cases "length rs = 1")
  case True
  then show ?thesis
    using single_record_distinct [OF True] by (simp add: base_mxTally)
next
  case False
  with assms have "length rs \<ge> 2"
    by (rule two_or_more)
  then show ?thesis
    by (simp add: base_mxTally)
qed

subsection \<open>Rounding and clamping\<close>

lemma clampScore_range:
  "0 \<le> hi \<Longrightarrow> 0 \<le> clampScore x hi \<and> clampScore x hi \<le> hi"
  by (simp add: clampScore_def)

lemma round1_range:
  assumes "0 \<le> x" "x \<le> of_int n"
  shows "0 \<le> jsRound (x * 10) / 10 \<and> jsRound (x * 10) / 10 \<le> of_int n"
proof -
  have "0 \<le> \<lfloor>x * 10 + 1 / 2\<rfloor>"
    using assms(1) by simp
  moreover have "x * 10 + 1 / 2 < of_int (10 * n) + 1"
    using assms(2) by simp
  then have "\<lfloor>x * 10 + 1 / 2\<rfloor> \<le> 10 * n"
    by (simp only: floor_le_iff)
  then have "real_of_int \<lfloor>x * 10 + 1 / 2\<rfloor> \<le> real_of_int (10 * n)"
    by (simp only: of_int_le_iff)
  ultimately show ?thesis
    by (simp add: jsRound_def)
qed

lemma round1_half:
  "jsRound ((of_int k / 2) * 10) / 10 = of_int k / 2"
proof -
  have "\<lfloor>(real_of_int k / 2) * 10 + 1 / 2\<rfloor> = 5 * k"
    by (rule floor_unique) simp_all
  then show ?thesis
    by (simp add: jsRound_def)
qed

lemma scoreValue_mx:
  assumes "rs \<noteq> []"
  shows "scoreValue (aScore (analyzeMXRecords rs)) = base (mxTally rs)"
    and "level (aScore (analyzeMXRecords rs)) = mxSecurityLevel (base (mxTally rs))"
    and "aWarnings (analyzeMXRecords rs) = warns (mxTally rs)"
    and "aRecommendations (analyzeMXRecords rs) = recs (mxTally rs)"
    and "details (aScore (analyzeMXRecords rs)) = Some (dets (mxTally rs))"
    and "outOf (aScore (analyzeMXRecords rs)) = 3"
proof -
  have c: "clampScore (base (mxTally rs)) 3 = base (mxTally rs)"
    using base_mxTally_cases [OF assms] by (auto simp: clampScore_def)
  have r: "jsRound (base (mxTally rs) * 10) / 10 = base (mxTally rs)"
    using base_mxTally_cases [OF assms] by (auto simp: jsRound_def)
  show "scoreValue (aScore (analyzeMXRecords rs)) = base (mxTally rs)"
    using assms by (simp add: analyzeMXRecords_def mxFinish_def Let_def c r)
  show "level (aScore (analyzeMXRecords rs)) = mxSecurityLevel (base (mxTally rs))"
    using assms by (simp add: analyzeMXRecords_def mxFinish_def Let_def c)
  show "aWarnings (analyzeMXRecords rs) = warns (mxTally rs)"
    "aRecommendations (analyzeMXRecords rs) = recs (mxTally rs)"
    "details (aScore (analyzeMXRecords rs)) = Some (dets (mxTally rs))"
    "outOf (aScore (analyzeMXRecords rs)) = 3"
    using assms by (simp_all add: analyzeMXRecords_def mxFinish_def Let_def)
qed

lemma dets_mxTally_sole:
  "hasNullMx rs \<Longrightarrow> length rs = 1 \<Longrightarrow>
   dets (mxTally rs) = [''Null MX record - domain explicitly rejects email'']"
  by (simp add: mxTally_def mxNull_fields)

lemma dets_mxTally_head:
  "\<not> (hasNullMx rs \<and> length rs = 1) \<Longrightarrow>
   \<exists>ds. dets (mxTally rs) = ''MX records present (+1 point)'' # ds"
  by (simp add: mxTally_def mxNull_fields mxHighPriority_def mxLowPriority_def mxProviders_def
      mxPriorities_def mxRedundancy_def mxPresent_def Let_def)

text \<open>
  Claim C5, as amended. For the sole null MX record \<^verbatim>\<open>{ priority: 0, exchange: "." }\<close> the
  score is 0 (level Poor), its only detail is the null-MX entry "Null MX record - domain
  explicitly rejects email", and there are two warnings, in this order: the priority-0
  notice and "Null MX record detected - this domain does not accept email". When a
  null exchange stands among two or more records, the last warning is the milder
  "Mixed null and regular MX records" text, the null-MX warning is absent, the score is
  at least 2 and the details start with the entry for present records.
\<close>

theorem null_mx_handling:
  "analyzeMXRecords [\<lparr>priority = 0, exchange = ''.''\<rparr>] =
     \<lparr>aWarnings = [''Priority 0 detected - ensure this is intentional'',
                   ''Null MX record detected - this domain does not accept email''],
      aRecommendations = [''Consider adding backup MX records for redundancy''],
      aScore = \<lparr>scoreValue = 0, outOf = 3, level = Poor,
                details = Some [''Null MX record - domain explicitly rejects email'']\<rparr>\<rparr>
   \<and> (hasNullMx rs \<and> 2 \<le> length rs \<longrightarrow>
        last (aWarnings (analyzeMXRecords rs)) =
          ''Mixed null and regular MX records - this configuration may cause issues''
        \<and> ''Null MX record detected - this domain does not accept email''
            \<notin> set (aWarnings (analyzeMXRecords rs))
        \<and> 2 \<le> scoreValue (aScore (analyzeMXRecords rs))
        \<and> (\<exists>ds. details (aScore (analyzeMXRecords rs)) =
              Some (''MX records present (+1 point)'' # ds)))"
proof -
  let ?r = "\<lparr>priority = 0, exchange = ''.''\<rparr>"
  have n: "hasNullMx [?r]"
    by (simp add: hasNullMx_def)
  have sole: "analyzeMXRecords [?r] =
     \<lparr>aWarnings = [''Priority 0 detected - ensure this is intentional'',
                   ''Null MX record detected - this domain does not accept email''],
      aRecommendations = [''Consider adding backup MX records for redundancy''],
      aScore = \<lparr>scoreValue = 0, outOf = 3, level = Poor,
                details = Some [''Null MX record - domain explicitly rejects email'']\<rparr>\<rparr>"
    using n
    by (simp add: analyzeMXRecords_def mxFinish_def Let_def base_mxTally warns_mxTally
        recs_mxTally dets_mxTally_sole clampScore_def jsRound_def mxSecurityLevel_def)
  have mixed: "last (aWarnings (analyzeMXRecords rs)) =
          ''Mixed null and regular MX records - this configuration may cause issues''
        \<and> ''Null MX record detected - this domain does not accept email''
            \<notin> set (aWarnings (analyzeMXRecords rs))
        \<and> 2 \<le> scoreValue (aScore (analyzeMXRecords rs))
        \<and> (\<exists>ds. details (aScore (analyzeMXRecords rs)) =
              Some (''MX records present (+1 point)'' # ds))"
    if h: "hasNullMx rs" "2 \<le> length rs"
  proof -
    from h(2) have ne: "rs \<noteq> []" and l: "length rs \<noteq> 1"
      by auto
    have "\<exists>ds. dets (mxTally rs) = ''MX records present (+1 point)'' # ds"
      using l by (intro dets_mxTally_head) simp
    then show ?thesis
      using h l by (simp add: scoreValue_mx [OF ne] warns_mxTally base_mxTally)
  qed
  from sole mixed show ?thesis
    by blast
qed

theorem null_mx_handling_witness:
  "hasNullMx [\<lparr>priority = 0, exchange = ''.''\<rparr>, \<lparr>priority = 10, exchange = ''mx.example.com''\<rparr>]
   \<and> 2 \<le> length [\<lparr>priority = 0, exchange = ''.''\<rparr>, \<lparr>priority = 10, exchange = ''mx.example.com''\<rparr>]
   \<and> last (aWarnings (analyzeMXRecords
        [\<lparr>priority = 0, exchange = ''.''\<rparr>, \<lparr>priority = 10, exchange = ''mx.example.com''\<rparr>])) =
        ''Mixed null and regular MX records - this configuration may cause issues''
   \<and> 2 \<le> scoreValue (aScore (analyzeMXRecords
        [\<lparr>priority = 0, exchange = ''.''\<rparr>, \<lparr>priority = 10, exchange = ''mx.example.com''\<rparr>]))"
proof -
  let ?rs = "[\<lparr>priority = 0, exchange = ''.''\<rparr>, \<lparr>priority = 10, exchange = ''mx.example.com''\<rparr>]"
  have h: "hasNullMx ?rs \<and> 2 \<le> length ?rs"
    by (simp add: hasNullMx_def)
  with null_mx_handling [of ?rs] show ?thesis
    by blast
qed

text \<open>
  The sole null MX record \<^verbatim>\<open>{ priority: 0, exchange: "." }\<close> gets two warnings, not one, and
  neither is the "explicitly rejects email" text, which is the score detail.
\<close>

theorem null_mx_sole_counterexample:
  "aWarnings (analyzeMXRecords [\<lparr>priority = 0, exchange = ''.''\<rparr>]) =
     [''Priority 0 detected - ensure this is intentional'',
      ''Null MX record detected - this domain does not accept email'']
   \<and> length (aWarnings (analyzeMXRecords [\<lparr>priority = 0, exchange = ''.''\<rparr>])) = 2"
  by (simp add: analyzeMXRecords_def mxFinish_def Let_def warns_mxTally hasNullMx_def)

subsection \<open>DKIM analysis\<close>

text \<open>How each rule moves the score: the public-key rule alone awards the two key points.\<close>

lemma dkimValid_base: "base (dkimValid t) = base t + 1"
  by (simp add: dkimValid_def)

lemma dkimPublicKey_base:
  "base (dkimPublicKey r t) =
     base t + (if jsIncludes r ''p='' \<and> \<not> jsIncludes r ''p=;'' then 2 else 0)"
  by (simp add: dkimPublicKey_def)

lemma dkimKeyType_base:
  "base (dkimKeyType r t) =
     base t + (if jsIncludes r ''k=rsa'' then 1 else if jsIncludes r ''k=ed25519'' then 3 / 2 else 0)"
  by (simp add: dkimKeyType_def)

lemma dkimHash_base:
  "base (dkimHash r t) =
     base t + (if jsIncludes r ''h=sha256'' then 1 else if jsIncludes r ''h=sha1'' then 1 / 2 else 0)"
  by (simp add: dkimHash_def)

lemma dkimService_base:
  "base (dkimService r t) = base t + (if jsIncludes r ''s=email'' then 1 / 2 else 0)"
  by (simp add: dkimService_def)

lemma dkimFlags_base:
  "base (dkimTesting r t) = base t" "base (dkimStrict r t) = base t"
  by (simp_all add: dkimTesting_def dkimStrict_def)

lemma dkimKeyLength_base:
  "base (dkimKeyLength r t) =
     base t + (case publicKeyMatch r of None \<Rightarrow> 0
               | Some key \<Rightarrow> if length key > 300 then 1 / 2 else 0)"
  by (simp add: dkimKeyLength_def Let_def split: option.splits)

lemma dkimMailauth_base:
  "base (dkimMailauth v t) = base t \<or> base (dkimMailauth v t) = base t + 1 / 2"
  by (simp add: dkimMailauth_def dkimInfo_def dkimStatus_def Let_def
      split: option.splits list.splits)

lemma publicKeyMatch_none:
  "\<not> jsIncludes r ''p='' \<Longrightarrow> publicKeyMatch r = None"
  by (induction r) auto

lemma base_dkimTally:
  "\<exists>bonus. (bonus = 0 \<or> bonus = 1 / 2) \<and>
     base (dkimTally r v) =
       1 + (if jsIncludes r ''p='' \<and> \<not> jsIncludes r ''p=;'' then 2 else 0)
         + (if jsIncludes r ''k=rsa'' then 1 else if jsIncludes r ''k=ed25519'' then 3 / 2 else 0)
         + (if jsIncludes r ''h=sha256'' then 1 else if jsIncludes r ''h=sha1'' then 1 / 2 else 0)
         + (if jsIncludes r ''s=email'' then 1 / 2 else 0)
         + (case publicKeyMatch r of None \<Rightarrow> 0
            | Some key \<Rightarrow> if length key > 300 then 1 / 2 else 0)
         + bonus"
proof -
  let ?t = "dkimKeyLength r (dkimStrict r (dkimTesting r (dkimService r (dkimHash r
      (dkimKeyType r (dkimPublicKey r (dkimValid \<lparr>base = 0, dets = [], warns = [], recs = []\<rparr>)))))))"
  have t: "dkimTally r v = dkimMailauth v ?t"
    by (simp only: dkimTally_def)
  have b: "base ?t =
       1 + (if jsIncludes r ''p='' \<and> \<not> jsIncludes r ''p=;'' then 2 else 0)
         + (if jsIncludes r ''k=rsa'' then 1 else if jsIncludes r ''k=ed25519'' then 3 / 2 else 0)
         + (if jsIncludes r ''h=sha256'' then 1 else if jsIncludes r ''h=sha1'' then 1 / 2 else 0)
         + (if jsIncludes r ''s=email'' then 1 / 2 else 0)
         + (case publicKeyMatch r of None \<Rightarrow> 0
            | Some key \<Rightarrow> if length key > 300 then 1 / 2 else 0)"
    by (simp only: dkimKeyLength_base dkimFlags_base dkimService_base dkimHash_base
        dkimKeyType_base dkimPublicKey_base dkimValid_base tally.simps)
  consider (same) "base (dkimTally r v) = base ?t"
    | (plus) "base (dkimTally r v) = base ?t + 1 / 2"
    using dkimMailauth_base [of v ?t] unfolding t by blast
  then show ?thesis
  proof cases
    case same
    with b show ?thesis
      by (intro exI [of _ 0]) simp
  next
    case plus
    with b show ?thesis
      by (intro exI [of _ "1 / 2"]) simp
  qed
qed

lemma half_add:
  fixes x y :: real
  shows "2 * x \<in> \<int> \<Longrightarrow> 2 * y \<in> \<int> \<Longrightarrow> 2 * (x + y) \<in> \<int>"
  by (simp add: distrib_left)

lemma half_base_dkimTally: "2 * base (dkimTally r v) \<in> \<int>"
proof -
  let ?t = "dkimKeyLength r (dkimStrict r (dkimTesting r (dkimService r (dkimHash r
      (dkimKeyType r (dkimPublicKey r (dkimValid \<lparr>base = 0, dets = [], warns = [], recs = []\<rparr>)))))))"
  have "2 * base ?t \<in> \<int>"
    by (simp only: dkimKeyLength_base dkimFlags_base dkimService_base dkimHash_base
        dkimKeyType_base dkimPublicKey_base dkimValid_base tally.simps)
       (auto intro!: half_add split: option.splits)
  moreover have "base (dkimTally r v) = base ?t \<or> base (dkimTally r v) = base ?t + 1 / 2"
    unfolding dkimTally_def by (rule dkimMailauth_base)
  ultimately show ?thesis
    by (auto intro!: half_add)
qed

lemma half_clamp:
  assumes "2 * x \<in> \<int>"
  shows "2 * clampScore x 5 \<in> \<int>"
proof -
  have "clampScore x 5 = x \<or> clampScore x 5 = 5 \<or> clampScore x 5 = 0"
    by (auto simp: clampScore_def max_def min_def)
  with assms show ?thesis
    by auto
qed

lemma round1_halves:
  assumes "2 * x \<in> \<int>"
  shows "jsRound (x * 10) / 10 = x"
proof -
  from assms obtain k where "2 * x = of_int k"
    by (auto elim: Ints_cases)
  then have x: "x = of_int k / 2"
    by simp
  show ?thesis
    unfolding x by (rule round1_half)
qed

lemma dkim_score:
  assumes "dkimShaped r"
  shows "scoreValue (aScore (analyzeDKIMRecord r v)) = clampScore (base (dkimTally r v)) 5"
    and "level (aScore (analyzeDKIMRecord r v)) =
           dkimSecurityLevel (clampScore (base (dkimTally r v)) 5)"
    and "outOf (aScore (analyzeDKIMRecord r v)) = 5"
    and "aWarnings (analyzeDKIMRecord r v) = warns (dkimTally r v)"
    and "details (aScore (analyzeDKIMRecord r v)) = Some (dets (dkimTally r v))"
  using assms round1_halves [OF half_clamp [OF half_base_dkimTally [of r v]]]
  by (simp_all add: analyzeDKIMRecord_def dkimFinish_def Let_def)

lemma dkim_unshaped:
  assumes "\<not> dkimShaped r"
  shows "analyzeDKIMRecord r v =
     \<lparr>aWarnings = [''Invalid DKIM record format''], aRecommendations = [],
      aScore = \<lparr>scoreValue = 0, outOf = 5, level = Poor, details = None\<rparr>\<rparr>"
  using assms by (simp add: analyzeDKIMRecord_def)

text \<open>Warnings only grow, and only the public-key rule writes the public-key detail.\<close>

lemma dkim_later_rules:
  "w \<in> set (warns t) \<Longrightarrow> w \<in> set (warns (dkimKeyType r t))"
  "w \<in> set (warns t) \<Longrightarrow> w \<in> set (warns (dkimHash r t))"
  "w \<in> set (warns t) \<Longrightarrow> w \<in> set (warns (dkimService r t))"
  "w \<in> set (warns t) \<Longrightarrow> w \<in> set (warns (dkimTesting r t))"
  "w \<in> set (warns t) \<Longrightarrow> w \<in> set (warns (dkimStrict r t))"
  "w \<in> set (warns t) \<Longrightarrow> w \<in> set (warns (dkimKeyLength r t))"
  "w \<in> set (warns t) \<Longrightarrow> w \<in> set (warns (dkimMailauth v t))"
  by (simp_all add: dkimKeyType_def dkimHash_def dkimService_def dkimTesting_def dkimStrict_def
      dkimKeyLength_def dkimMailauth_def dkimInfo_def dkimStatus_def Let_def
      split: option.splits list.splits)

lemma dkim_key_detail_kept:
  "(''Public key present (+2 points)'' \<in> set (dets (dkimKeyType r t))) =
     (''Public key present (+2 points)'' \<in> set (dets t))"
  "(''Public key present (+2 points)'' \<in> set (dets (dkimHash r t))) =
     (''Public key present (+2 points)'' \<in> set (dets t))"
  "(''Public key present (+2 points)'' \<in> set (dets (dkimService r t))) =
     (''Public key present (+2 points)'' \<in> set (dets t))"
  "(''Public key present (+2 points)'' \<in> set (dets (dkimTesting r t))) =
     (''Public key present (+2 points)'' \<in> set (dets t))"
  "(''Public key present (+2 points)'' \<in> set (dets (dkimStrict r t))) =
     (''Public key present (+2 points)'' \<in> set (dets t))"
  "(''Public key present (+2 points)'' \<in> set (dets (dkimKeyLength r t))) =
     (''Public key present (+2 points)'' \<in> set (dets t))"
  "(''Public key present (+2 points)'' \<in> set (dets (dkimMailauth v t))) =
     (''Public key present (+2 points)'' \<in> set (dets t))"
  by (simp_all add: dkimKeyType_def dkimHash_def dkimService_def dkimTesting_def dkimStrict_def
      dkimKeyLength_def dkimMailauth_def dkimInfo_def dkimStatus_def Let_def
      split: option.splits list.splits)

lemma dkim_key_rule:
  "(''Public key present (+2 points)''
      \<in> set (dets (dkimPublicKey r (dkimValid \<lparr>base = 0, dets = [], warns = [], recs = []\<rparr>)))) =
     (jsIncludes r ''p='' \<and> \<not> jsIncludes r ''p=;'')"
  "\<not> (jsIncludes r ''p='' \<and> \<not> jsIncludes r ''p=;'') \<Longrightarrow>
     ''No public key found in DKIM record''
       \<in> set (warns (dkimPublicKey r (dkimValid \<lparr>base = 0, dets = [], warns = [], recs = []\<rparr>)))"
  by (simp_all add: dkimPublicKey_def dkimValid_def)

lemma dkim_key_detail:
  "(''Public key present (+2 points)'' \<in> set (dets (dkimTally r v))) =
     (jsIncludes r ''p='' \<and> \<not> jsIncludes r ''p=;'')"
  unfolding dkimTally_def by (simp only: dkim_key_detail_kept dkim_key_rule)

lemma dkim_key_warning:
  assumes "\<not> (jsIncludes r ''p='' \<and> \<not> jsIncludes r ''p=;'')"
  shows "''No public key found in DKIM record'' \<in> set (warns (dkimTally r v))"
  unfolding dkimTally_def
  by (intro dkim_later_rules dkim_key_rule(2) assms)

lemma dkim_keyless_bound:
  assumes "\<not> jsIncludes r ''p=''"
  shows "base (dkimTally r v) \<le> 9 / 2"
proof -
  obtain bonus where "bonus = 0 \<or> bonus = 1 / 2" and
    b: "base (dkimTally r v) =
       1 + (if jsIncludes r ''p='' \<and> \<not> jsIncludes r ''p=;'' then 2 else 0)
         + (if jsIncludes r ''k=rsa'' then 1 else if jsIncludes r ''k=ed25519'' then 3 / 2 else 0)
         + (if jsIncludes r ''h=sha256'' then 1 else if jsIncludes r ''h=sha1'' then 1 / 2 else 0)
         + (if jsIncludes r ''s=email'' then 1 / 2 else 0)
         + (case publicKeyMatch r of None \<Rightarrow> 0
            | Some key \<Rightarrow> if length key > 300 then 1 / 2 else 0)
         + bonus"
    using base_dkimTally by blast
  then show ?thesis
    unfolding b using assms publicKeyMatch_none [OF assms] by auto
qed

lemma publicKeyMatch_some:
  "publicKeyMatch r \<noteq> None \<Longrightarrow> jsIncludes r ''p=''"
  using publicKeyMatch_none [of r] by (cases "jsIncludes r ''p=''") simp_all

text \<open>
  Claim C6, as amended. A DKIM-shaped record without \<^verbatim>\<open>p=\<close> gets the warning "No public key
  found in DKIM record", no public-key points, and a final score of at most 4.5 out of 5:
  the key-type, hash, service and verification rules still score. The two public-key
  points are awarded when \<^verbatim>\<open>p=\<close> is followed by a non-empty key and the record contains no
  \<^verbatim>\<open>p=;\<close>; they are not awarded, and the warning is given, when the key is empty and
  terminated at once (\<^verbatim>\<open>p=;\<close> with no \<^verbatim>\<open>p=\<close> followed by a key).
\<close>

theorem dkim_public_key_points:
  "(dkimShaped r \<and> \<not> jsIncludes r ''p='' \<longrightarrow>
      ''No public key found in DKIM record'' \<in> set (aWarnings (analyzeDKIMRecord r v))
      \<and> details (aScore (analyzeDKIMRecord r v)) = Some (dets (dkimTally r v))
      \<and> ''Public key present (+2 points)'' \<notin> set (dets (dkimTally r v))
      \<and> base (dkimPublicKey r t) = base t
      \<and> scoreValue (aScore (analyzeDKIMRecord r v)) \<le> 9 / 2)
   \<and> (dkimShaped r \<and> publicKeyMatch r \<noteq> None \<and> \<not> jsIncludes r ''p=;'' \<longrightarrow>
      details (aScore (analyzeDKIMRecord r v)) = Some (dets (dkimTally r v))
      \<and> ''Public key present (+2 points)'' \<in> set (dets (dkimTally r v))
      \<and> base (dkimPublicKey r t) = base t + 2)
   \<and> (dkimShaped r \<and> publicKeyMatch r = None \<and> jsIncludes r ''p=;'' \<longrightarrow>
      ''No public key found in DKIM record'' \<in> set (aWarnings (analyzeDKIMRecord r v))
      \<and> details (aScore (analyzeDKIMRecord r v)) = Some (dets (dkimTally r v))
      \<and> ''Public key present (+2 points)'' \<notin> set (dets (dkimTally r v))
      \<and> base (dkimPublicKey r t) = base t)"
proof -
  have keyless: "''No public key found in DKIM record'' \<in> set (aWarnings (analyzeDKIMRecord r v))
      \<and> details (aScore (analyzeDKIMRecord r v)) = Some (dets (dkimTally r v))
      \<and> ''Public key present (+2 points)'' \<notin> set (dets (dkimTally r v))
      \<and> base (dkimPublicKey r t) = base t
      \<and> scoreValue (aScore (analyzeDKIMRecord r v)) \<le> 9 / 2"
    if h: "dkimShaped r" "\<not> jsIncludes r ''p=''"
  proof -
    have "clampScore (base (dkimTally r v)) 5 \<le> 9 / 2"
      using dkim_keyless_bound [OF h(2), of v] by (simp add: clampScore_def)
    then show ?thesis
      using h(2) dkim_key_warning [of r v]
      by (simp add: dkim_score [OF h(1)] dkim_key_detail dkimPublicKey_base)
  qed
  have keyed: "details (aScore (analyzeDKIMRecord r v)) = Some (dets (dkimTally r v))
      \<and> ''Public key present (+2 points)'' \<in> set (dets (dkimTally r v))
      \<and> base (dkimPublicKey r t) = base t + 2"
    if h: "dkimShaped r" "publicKeyMatch r \<noteq> None" "\<not> jsIncludes r ''p=;''"
    using publicKeyMatch_some [OF h(2)] h(3)
    by (simp add: dkim_score [OF h(1)] dkim_key_detail dkimPublicKey_base)
  have revoked: "''No public key found in DKIM record'' \<in> set (aWarnings (analyzeDKIMRecord r v))
      \<and> details (aScore (analyzeDKIMRecord r v)) = Some (dets (dkimTally r v))
      \<and> ''Public key present (+2 points)'' \<notin> set (dets (dkimTally r v))
      \<and> base (dkimPublicKey r t) = base t"
    if h: "dkimShaped r" "jsIncludes r ''p=;''"
    using h(2) dkim_key_warning [of r v]
    by (simp add: dkim_score [OF h(1)] dkim_key_detail dkimPublicKey_base)
  from keyless keyed revoked show ?thesis
    by blast
qed

theorem dkim_public_key_points_witness:
  "dkimShaped ''v=DKIM1; k=ed25519; h=sha256; s=email''
   \<and> \<not> jsIncludes ''v=DKIM1; k=ed25519; h=sha256; s=email'' ''p=''
   \<and> ''No public key found in DKIM record''
       \<in> set (aWarnings (analyzeDKIMRecord ''v=DKIM1; k=ed25519; h=sha256; s=email'' None))
   \<and> scoreValue (aScore (analyzeDKIMRecord ''v=DKIM1; k=ed25519; h=sha256; s=email'' None))
       \<le> 9 / 2
   \<and> dkimShaped ''v=DKIM1; k=rsa; p=MIGfMA0G''
   \<and> publicKeyMatch ''v=DKIM1; k=rsa; p=MIGfMA0G'' \<noteq> None
   \<and> \<not> jsIncludes ''v=DKIM1; k=rsa; p=MIGfMA0G'' ''p=;''
   \<and> ''Public key present (+2 points)''
       \<in> set (dets (dkimTally ''v=DKIM1; k=rsa; p=MIGfMA0G'' None))
   \<and> dkimShaped ''v=DKIM1; k=rsa; p=;''
   \<and> publicKeyMatch ''v=DKIM1; k=rsa; p=;'' = None
   \<and> jsIncludes ''v=DKIM1; k=rsa; p=;'' ''p=;''
   \<and> ''No public key found in DKIM record''
       \<in> set (aWarnings (analyzeDKIMRecord ''v=DKIM1; k=rsa; p=;'' None))"
proof -
  have h1: "dkimShaped ''v=DKIM1; k=ed25519; h=sha256; s=email''
           \<and> \<not> jsIncludes ''v=DKIM1; k=ed25519; h=sha256; s=email'' ''p=''"
    by (simp add: dkimShaped_def)
  have h2: "dkimShaped ''v=DKIM1; k=rsa; p=MIGfMA0G''
           \<and> publicKeyMatch ''v=DKIM1; k=rsa; p=MIGfMA0G'' \<noteq> None
           \<and> \<not> jsIncludes ''v=DKIM1; k=rsa; p=MIGfMA0G'' ''p=;''"
    by (simp add: dkimShaped_def keyChar_def)
  have h3: "dkimShaped ''v=DKIM1; k=rsa; p=;''
           \<and> publicKeyMatch ''v=DKIM1; k=rsa; p=;'' = None
           \<and> jsIncludes ''v=DKIM1; k=rsa; p=;'' ''p=;''"
    by (simp add: dkimShaped_def keyChar_def)
  from h1 h2 h3
    dkim_public_key_points [of "''v=DKIM1; k=ed25519; h=sha256; s=email''" None]
    dkim_public_key_points [of "''v=DKIM1; k=rsa; p=MIGfMA0G''" None]
    dkim_public_key_points [of "''v=DKIM1; k=rsa; p=;''" None]
  show ?thesis by blast
qed

text \<open>A DKIM-shaped record without \<^verbatim>\<open>p=\<close> scores 3 out of 5, above 1.\<close>

theorem dkim_keyless_counterexample:
  "dkimShaped ''v=DKIM1; k=rsa; h=sha256''
   \<and> \<not> jsIncludes ''v=DKIM1; k=rsa; h=sha256'' ''p=''
   \<and> scoreValue (aScore (analyzeDKIMRecord ''v=DKIM1; k=rsa; h=sha256'' None)) = 3"
  by (simp add: analyzeDKIMRecord_def dkimShaped_def dkimFinish_def dkimTally_def
      dkimMailauth_def dkimKeyLength_def dkimStrict_def dkimTesting_def dkimService_def
      dkimHash_def dkimKeyType_def dkimPublicKey_def dkimValid_def clampScore_def jsRound_def
      Let_def)

subsection \<open>Score ranges and levels\<close>

lemma dkim_in_range:
  "scoreInRange (aScore (analyzeDKIMRecord r v)) \<and> outOf (aScore (analyzeDKIMRecord r v)) = 5"
proof (cases "dkimShaped r")
  case True
  have "0 \<le> clampScore (base (dkimTally r v)) 5 \<and> clampScore (base (dkimTally r v)) 5 \<le> 5"
    by (rule clampScore_range) simp
  then show ?thesis
    by (simp add: scoreInRange_def dkim_score [OF True])
next
  case False
  then show ?thesis
    by (simp add: scoreInRange_def dkim_unshaped)
qed

lemma mx_values:
  "scoreValue (aScore (analyzeMXRecords rs)) \<in> {0, 2, 3} \<and> outOf (aScore (analyzeMXRecords rs)) = 3"
proof (cases "rs = []")
  case True
  then show ?thesis
    by (simp add: analyzeMXRecords_def)
next
  case False
  then show ?thesis
    using base_mxTally_cases [OF False] by (auto simp: scoreValue_mx [OF False])
qed

lemma mx_in_range:
  "scoreInRange (aScore (analyzeMXRecords rs)) \<and> outOf (aScore (analyzeMXRecords rs)) = 3"
  using mx_values [of rs] by (auto simp: scoreInRange_def)

lemma addScore_range:
  assumes "reportInRange r" "0 \<le> t" "t \<le> m"
  shows "0 \<le> fst (addScore r (t, m)) \<and> fst (addScore r (t, m)) \<le> snd (addScore r (t, m))"
  using assms
  by (auto simp: addScore_def reportInRange_def scoreInRange_def split: option.splits)

lemma scoreSums_range:
  assumes "reportInRange r1" "reportInRange r2" "reportInRange r3" "reportInRange r4"
  shows "0 \<le> fst (scoreSums r1 r2 r3 r4) \<and> fst (scoreSums r1 r2 r3 r4) \<le> snd (scoreSums r1 r2 r3 r4)"
proof -
  let ?s1 = "addScore r1 (0, 0)"
  let ?s2 = "addScore r2 ?s1"
  let ?s3 = "addScore r3 ?s2"
  have 1: "0 \<le> fst ?s1 \<and> fst ?s1 \<le> snd ?s1"
    using addScore_range [OF assms(1), of 0 0] by simp
  have 2: "0 \<le> fst ?s2 \<and> fst ?s2 \<le> snd ?s2"
    using addScore_range [OF assms(2), of "fst ?s1" "snd ?s1"] 1 by simp
  have 3: "0 \<le> fst ?s3 \<and> fst ?s3 \<le> snd ?s3"
    using addScore_range [OF assms(3), of "fst ?s2" "snd ?s2"] 2 by simp
  show ?thesis
    using addScore_range [OF assms(4), of "fst ?s3" "snd ?s3"] 3
    by (simp add: scoreSums_def)
qed

lemma overallOf_range:
  assumes "0 \<le> t" "t \<le> m"
  shows "0 \<le> overallOf (t, m) \<and> overallOf (t, m) \<le> 10"
proof (cases "m > 0")
  case True
  then show ?thesis
    using assms by (simp add: overallOf_def field_simps)
next
  case False
  then show ?thesis
    by (simp add: overallOf_def)
qed

lemma overall_in_range:
  assumes "reportInRange (settledReport a)" "reportInRange (settledReport b)"
    "reportInRange (settledReport c)" "reportInRange (settledReport d)"
  shows "scoreInRange (overallScore (analyzeEmailSecurity dn a b c d))
         \<and> outOf (overallScore (analyzeEmailSecurity dn a b c d)) = 10"
proof -
  let ?s = "scoreSums (settledReport a) (settledReport b) (settledReport c) (settledReport d)"
  have "0 \<le> overallOf (fst ?s, snd ?s) \<and> overallOf (fst ?s, snd ?s) \<le> 10"
    using scoreSums_range [OF assms] by (intro overallOf_range) simp_all
  then have "0 \<le> overallOf ?s" "overallOf ?s \<le> of_int 10"
    by simp_all
  from round1_range [OF this] show ?thesis
    by (simp add: analyzeEmailSecurity_def Let_def scoreInRange_def)
qed

lemma analyzers_in_range:
  "reportInRange (analyzeSPF dn spfTxt spfProbes)"
  "reportInRange (analyzeDKIM dn sel dkimTxt dkimVerified)"
  "reportInRange (analyzeMX dn mxResolved)"
proof -
  show "reportInRange (analyzeSPF dn spfTxt spfProbes)"
    by (simp add: reportInRange_def score_analyzeSPF)
  show "reportInRange (analyzeDKIM dn sel dkimTxt dkimVerified)"
    using dkim_in_range
    by (simp add: reportInRange_def analyzeDKIM_def dkimNotFound_def noProperties_def Let_def
        split: sum.splits option.splits)
  show "reportInRange (analyzeMX dn mxResolved)"
    using mx_in_range
    by (simp add: reportInRange_def analyzeMX_def noProperties_def Let_def split: sum.splits)
qed

text \<open>
  Claim C8. The score of the DKIM analysis lies in \<open>[0, 5]\<close> and that of the MX analysis
  in \<open>[0, 3]\<close>, whatever the record content and the verification result; the overall
  score lies in \<open>[0, 10]\<close> for every combination of settled reports whose scores respect
  \<open>0 \<le> value \<le> outOf\<close>, and so for every run of the whole analysis in which the DMARC
  report does.
\<close>

theorem score_invariant:
  "scoreInRange (aScore (analyzeDKIMRecord r v)) \<and> outOf (aScore (analyzeDKIMRecord r v)) = 5
   \<and> scoreInRange (aScore (analyzeMXRecords rs)) \<and> outOf (aScore (analyzeMXRecords rs)) = 3
   \<and> (reportInRange (settledReport a) \<and> reportInRange (settledReport b)
        \<and> reportInRange (settledReport c) \<and> reportInRange (settledReport d) \<longrightarrow>
      scoreInRange (overallScore (analyzeEmailSecurity dn a b c d))
      \<and> outOf (overallScore (analyzeEmailSecurity dn a b c d)) = 10)
   \<and> (reportInRange (settledReport a) \<longrightarrow>
      scoreInRange (overallScore
        (analyzeAll dn sel a spfTxt spfProbes dkimTxt dkimVerified mxResolved))
      \<and> outOf (overallScore
        (analyzeAll dn sel a spfTxt spfProbes dkimTxt dkimVerified mxResolved)) = 10)"
proof -
  have whole: "scoreInRange (overallScore
        (analyzeAll dn sel a spfTxt spfProbes dkimTxt dkimVerified mxResolved))
      \<and> outOf (overallScore
        (analyzeAll dn sel a spfTxt spfProbes dkimTxt dkimVerified mxResolved)) = 10"
    if "reportInRange (settledReport a)"
    unfolding analyzeAll_def
    using that analyzers_in_range
    by (intro overall_in_range) (simp_all add: settledReport_def)
  from dkim_in_range [of r v] mx_in_range [of rs] overall_in_range [of a b c d dn] whole
  show ?thesis
    by blast
qed

theorem score_invariant_witness:
  "reportInRange (settledReport (Fulfilled (noProperties\<lparr>success := True,
       score := Some \<lparr>scoreValue = 4, outOf = 5, level = Excellent, details = None\<rparr>\<rparr>)))
   \<and> scoreInRange (overallScore (analyzeAll ''example.com'' ''default''
        (Fulfilled (noProperties\<lparr>success := True,
           score := Some \<lparr>scoreValue = 4, outOf = 5, level = Excellent, details = None\<rparr>\<rparr>))
        (Inr [[''v=spf1 -all'']]) (\<lambda>testIP. Inl \<lparr>code = None, message = ''unreachable''\<rparr>)
        (Inr [[''v=DKIM1; k=rsa; p=MIGf'']]) (Inl \<lparr>code = None, message = ''no signature''\<rparr>)
        (Inr [\<lparr>priority = 10, exchange = ''mx.example.com''\<rparr>])))"
proof -
  have h: "reportInRange (settledReport (Fulfilled (noProperties\<lparr>success := True,
       score := Some \<lparr>scoreValue = 4, outOf = 5, level = Excellent, details = None\<rparr>\<rparr>)))"
    by (simp add: reportInRange_def settledReport_def scoreInRange_def)
  with score_invariant [of _ _ _ "Fulfilled (noProperties\<lparr>success := True,
       score := Some \<lparr>scoreValue = 4, outOf = 5, level = Excellent, details = None\<rparr>\<rparr>)"]
  show ?thesis
    by blast
qed

lemma dkim_level_band:
  "level (aScore (analyzeDKIMRecord r v)) =
     bandLevel (scoreValue (aScore (analyzeDKIMRecord r v)) / outOf (aScore (analyzeDKIMRecord r v)))"
proof (cases "dkimShaped r")
  case True
  show ?thesis
    by (simp add: dkim_score [OF True] bandLevel_def dkimSecurityLevel_def)
next
  case False
  then show ?thesis
    by (simp add: dkim_unshaped bandLevel_def)
qed

lemma mx_level_band:
  "level (aScore (analyzeMXRecords rs)) = mxSecurityLevel (scoreValue (aScore (analyzeMXRecords rs)))
   \<and> level (aScore (analyzeMXRecords rs)) =
       bandLevel (scoreValue (aScore (analyzeMXRecords rs)) / outOf (aScore (analyzeMXRecords rs)))"
proof (cases "rs = []")
  case True
  then show ?thesis
    by (simp add: analyzeMXRecords_def mxSecurityLevel_def bandLevel_def)
next
  case False
  then show ?thesis
    using base_mxTally_cases [OF False]
    by (auto simp: scoreValue_mx [OF False] mxSecurityLevel_def bandLevel_def)
qed

lemma overall_level_band:
  "level (overallScore (analyzeEmailSecurity dn a b c d)) =
     bandLevel (overallOf (scoreSums (settledReport a) (settledReport b) (settledReport c)
       (settledReport d)) / 10)
   \<and> scoreValue (overallScore (analyzeEmailSecurity dn a b c d)) =
     jsRound (overallOf (scoreSums (settledReport a) (settledReport b) (settledReport c)
       (settledReport d)) * 10) / 10"
  by (simp add: analyzeEmailSecurity_def Let_def overallSecurityLevel_def bandLevel_def)

text \<open>
  Claim C7, as amended. The DKIM level is the specification's step function of
  \<open>value / outOf\<close> (80%, 60%, 40%; the thresholds 4, 3 and 2 of 5). The MX level is
  computed with the thresholds 2.5, 2 and 1 of 3, which are not those percentages of 3;
  the MX analysis only produces the values 0, 2 and 3, and on these the level agrees
  with the step function of \<open>value / outOf\<close>. The overall level is the step function of
  the overall score before rounding, over 10, while the reported value is that score
  rounded to one decimal.
\<close>

theorem level_bands:
  "level (aScore (analyzeDKIMRecord r v)) =
     bandLevel (scoreValue (aScore (analyzeDKIMRecord r v)) / outOf (aScore (analyzeDKIMRecord r v)))
   \<and> scoreValue (aScore (analyzeMXRecords rs)) \<in> {0, 2, 3}
   \<and> level (aScore (analyzeMXRecords rs)) = mxSecurityLevel (scoreValue (aScore (analyzeMXRecords rs)))
   \<and> level (aScore (analyzeMXRecords rs)) =
       bandLevel (scoreValue (aScore (analyzeMXRecords rs)) / outOf (aScore (analyzeMXRecords rs)))
   \<and> level (overallScore (analyzeEmailSecurity dn a b c d)) =
       bandLevel (overallOf (scoreSums (settledReport a) (settledReport b) (settledReport c)
         (settledReport d)) / 10)
   \<and> scoreValue (overallScore (analyzeEmailSecurity dn a b c d)) =
       jsRound (overallOf (scoreSums (settledReport a) (settledReport b) (settledReport c)
         (settledReport d)) * 10) / 10"
  using dkim_level_band [of r v] mx_values [of rs] mx_level_band [of rs]
    overall_level_band [of dn a b c d]
  by blast

theorem level_bands_witness:
  "level (aScore (analyzeDKIMRecord ''v=DKIM1; k=rsa; h=sha256; p=MIGfMA0G'' None)) =
     bandLevel (scoreValue (aScore (analyzeDKIMRecord ''v=DKIM1; k=rsa; h=sha256; p=MIGfMA0G'' None))
       / outOf (aScore (analyzeDKIMRecord ''v=DKIM1; k=rsa; h=sha256; p=MIGfMA0G'' None)))
   \<and> level (aScore (analyzeMXRecords [\<lparr>priority = 10, exchange = ''mx.example.com''\<rparr>])) =
       bandLevel (scoreValue (aScore (analyzeMXRecords [\<lparr>priority = 10, exchange = ''mx.example.com''\<rparr>]))
         / outOf (aScore (analyzeMXRecords [\<lparr>priority = 10, exchange = ''mx.example.com''\<rparr>])))"
  using level_bands [of "''v=DKIM1; k=rsa; h=sha256; p=MIGfMA0G''" None
      "[\<lparr>priority = 10, exchange = ''mx.example.com''\<rparr>]"]
  by blast

text \<open>
  The MX thresholds are not 80%, 60% and 40% of 3: a clamped score of 1 (33%) is rated
  Fair and one of 2.4 (80%) is rated Good. And the overall level is fixed before
  rounding: a lone DMARC score of 7.96 out of 10 is reported as 8 out of 10 with level
  Good.
\<close>

theorem level_bands_counterexample:
  "mxSecurityLevel 1 = Fair \<and> bandLevel (1 / 3) = Poor
   \<and> mxSecurityLevel (12 / 5) = Good \<and> bandLevel ((12 / 5) / 3) = Excellent
   \<and> level (overallScore (analyzeEmailSecurity ''example.com''
        (Fulfilled (noProperties\<lparr>success := True,
           score := Some \<lparr>scoreValue = 199 / 25, outOf = 10, level = Good, details = None\<rparr>\<rparr>))
        (Rejected \<lparr>code = None, message = ''timeout''\<rparr>)
        (Rejected \<lparr>code = None, message = ''timeout''\<rparr>)
        (Rejected \<lparr>code = None, message = ''timeout''\<rparr>))) = Good
   \<and> scoreValue (overallScore (analyzeEmailSecurity ''example.com''
        (Fulfilled (noProperties\<lparr>success := True,
           score := Some \<lparr>scoreValue = 199 / 25, outOf = 10, level = Good, details = None\<rparr>\<rparr>))
        (Rejected \<lparr>code = None, message = ''timeout''\<rparr>)
        (Rejected \<lparr>code = None, message = ''timeout''\<rparr>)
        (Rejected \<lparr>code = None, message = ''timeout''\<rparr>))) = 8
   \<and> bandLevel (8 / 10) = Excellent"
  by (simp add: mxSecurityLevel_def bandLevel_def analyzeEmailSecurity_def Let_def
      settledReport_def placeholder_def noProperties_def scoreSums_def addScore_def
      overallOf_def overallSecurityLevel_def jsRound_def)

subsection \<open>SPF analysis\<close>

lemma analyzeSPF_none:
  assumes "filter (\<lambda>txt. startsWith (toLowerCase txt) ''v=spf1'') (map concat txtRecords) = []"
  shows "analyzeSPF dn (Inr txtRecords) probe = spfNotFound dn"
  using assms by (simp add: analyzeSPF_def Let_def del: filter_map)

lemma analyzeSPF_multiple:
  assumes "2 \<le> length (filter (\<lambda>txt. startsWith (toLowerCase txt) ''v=spf1'') (map concat txtRecords))"
  shows "analyzeSPF dn (Inr txtRecords) probe =
           spfMultiple dn (filter (\<lambda>txt. startsWith (toLowerCase txt) ''v=spf1'') (map concat txtRecords))"
proof -
  let ?m = "filter (\<lambda>txt. startsWith (toLowerCase txt) ''v=spf1'') (map concat txtRecords)"
  from assms have "length ?m \<noteq> 0" "1 < length ?m"
    by linarith+
  then show ?thesis
    unfolding analyzeSPF_def Let_def by (simp del: filter_map)
qed

text \<open>
  Claim C3. When two or more of the fetched TXT records (each with its chunks joined)
  start with \<^verbatim>\<open>v=spf1\<close> in any letter case, \<^verbatim>\<open>analyzeSPF\<close> reports \<open>success = false\<close> with
  the error "Fatal: Multiple SPF records found.", which contains "Multiple SPF records";
  \<open>rawRecord\<close> is the matching records in their order, joined by \<^verbatim>\<open>" | "\<close>; and the report
  carries two warnings, where the "not found" report carries none.
\<close>

theorem multiple_spf_records_fatal:
  assumes "2 \<le> length (filter (\<lambda>txt. startsWith (toLowerCase txt) ''v=spf1'') (map concat txtRecords))"
  shows "success (analyzeSPF dn (Inr txtRecords) probe) = False
    \<and> error (analyzeSPF dn (Inr txtRecords) probe) = Some ''Fatal: Multiple SPF records found.''
    \<and> jsIncludes ''Fatal: Multiple SPF records found.'' ''Multiple SPF records''
    \<and> startsWith ''Fatal: Multiple SPF records found.'' ''Fatal: Multiple SPF records found''
    \<and> rawRecord (analyzeSPF dn (Inr txtRecords) probe) =
        Some (join '' | ''
          (filter (\<lambda>txt. startsWith (toLowerCase txt) ''v=spf1'') (map concat txtRecords)))
    \<and> warnings (analyzeSPF dn (Inr txtRecords) probe) =
        Some [''Multiple SPF records will cause authentication failures.'',
              ''Email delivery may be severely impacted.'']
    \<and> warnings (spfNotFound dn) = None
    \<and> error (spfNotFound dn) = Some ''No SPF record found.''"
proof -
  have "jsIncludes ''Fatal: Multiple SPF records found.'' ''Multiple SPF records''"
    by simp
  moreover have "startsWith ''Fatal: Multiple SPF records found.'' ''Fatal: Multiple SPF records found''"
    by simp
  ultimately show ?thesis
    unfolding analyzeSPF_multiple [OF assms]
    by (simp add: spfMultiple_def spfNotFound_def noProperties_def)
qed

theorem multiple_spf_records_fatal_witness:
  "2 \<le> length (filter (\<lambda>txt. startsWith (toLowerCase txt) ''v=spf1'')
       (map concat [[''v=spf1 include:_spf.example.net '', ''-all''],
                    [''site-verification=abc''], [''V=SPF1 mx ~all'']]))
   \<and> rawRecord (analyzeSPF ''example.com''
        (Inr [[''v=spf1 include:_spf.example.net '', ''-all''],
              [''site-verification=abc''], [''V=SPF1 mx ~all'']])
        (\<lambda>testIP. Inl \<lparr>code = None, message = ''unreachable''\<rparr>)) =
      Some ''v=spf1 include:_spf.example.net -all | V=SPF1 mx ~all''
   \<and> success (analyzeSPF ''example.com''
        (Inr [[''v=spf1 include:_spf.example.net '', ''-all''],
              [''site-verification=abc''], [''V=SPF1 mx ~all'']])
        (\<lambda>testIP. Inl \<lparr>code = None, message = ''unreachable''\<rparr>)) = False"
proof -
  let ?txt = "[[''v=spf1 include:_spf.example.net '', ''-all''],
               [''site-verification=abc''], [''V=SPF1 mx ~all'']]"
  have m: "filter (\<lambda>txt. startsWith (toLowerCase txt) ''v=spf1'') (map concat ?txt) =
      [''v=spf1 include:_spf.example.net -all'', ''V=SPF1 mx ~all'']"
    by (simp add: toLowerCase_def toLowerChar_def)
  have h: "2 \<le> length (filter (\<lambda>txt. startsWith (toLowerCase txt) ''v=spf1'') (map concat ?txt))"
    unfolding m by simp
  from multiple_spf_records_fatal [OF h, of "''example.com''"
      "\<lambda>testIP. Inl \<lparr>code = None, message = ''unreachable''\<rparr>"]
  have "rawRecord (analyzeSPF ''example.com'' (Inr ?txt)
        (\<lambda>testIP. Inl \<lparr>code = None, message = ''unreachable''\<rparr>)) =
      Some (join '' | '' [''v=spf1 include:_spf.example.net -all'', ''V=SPF1 mx ~all''])"
    and "success (analyzeSPF ''example.com'' (Inr ?txt)
        (\<lambda>testIP. Inl \<lparr>code = None, message = ''unreachable''\<rparr>)) = False"
    unfolding m by blast+
  with h show ?thesis
    by simp
qed

text \<open>
  Only the lookup-limit rules write a lookup-limit text: every other rule leaves the
  lookup-limit texts among the warnings and among the recommendations as they are.
\<close>

lemma spfPolicy_limit_texts:
  "filter isLimitText (anWarnings (spfPolicy ms a)) = filter isLimitText (anWarnings a)"
  "filter isLimitText (anRecommendations (spfPolicy ms a)) =
     filter isLimitText (anRecommendations a)"
  "anLookups (spfPolicy ms a) = anLookups a"
  by (simp_all add: spfPolicy_def isLimitText_def Let_def split: option.splits)

lemma spfMechanism_limit_texts:
  "filter isLimitText (anWarnings (spfMechanism m a)) = filter isLimitText (anWarnings a)"
  "filter isLimitText (anRecommendations (spfMechanism m a)) =
     filter isLimitText (anRecommendations a)"
  by (simp_all add: spfMechanism_def spfBareA_def spfBareMx_def spfPtr_def spfRedirect_def
      spfCountLookup_def spfRecordMechanism_def isLimitText_def Let_def split: option.splits)

lemma spfMechanisms_limit_texts:
  "filter isLimitText (anWarnings (spfMechanisms ms a)) = filter isLimitText (anWarnings a)
   \<and> filter isLimitText (anRecommendations (spfMechanisms ms a)) =
       filter isLimitText (anRecommendations a)"
  by (induction ms arbitrary: a) (simp_all add: spfMechanism_limit_texts)

lemma spfBeforeLimit_limit_texts:
  "filter isLimitText (anWarnings (spfBeforeLimit r)) = []"
  "filter isLimitText (anRecommendations (spfBeforeLimit r)) = []"
  by (simp_all add: spfBeforeLimit_def Let_def spfMechanisms_limit_texts spfPolicy_limit_texts)

lemma limit_texts:
  "isLimitText (fatalLookupWarning n)" "isLimitText (approachingLimitWarning n)"
  "isLimitText (monitorRecommendation n)" "isLimitText reduceLookupsRecommendation"
  "isLimitText optimizeRecommendation"
  "startsWith (fatalLookupWarning n) ''Fatal:''"
  "startsWith reduceLookupsRecommendation ''Reduce DNS lookups''"
  by (simp_all add: isLimitText_def fatalLookupWarning_def approachingLimitWarning_def
      monitorRecommendation_def reduceLookupsRecommendation_def optimizeRecommendation_def)

lemma spfLookupLimit_fields:
  "anLookups (spfLookupLimit a) = anLookups a"
  "anWarnings (spfLookupLimit a) =
     (if anLookups a > 10 then fatalLookupWarning (anLookups a) # anWarnings a
      else if anLookups a > 8 then anWarnings a @ [approachingLimitWarning (anLookups a)]
      else anWarnings a)"
  "anRecommendations (spfLookupLimit a) =
     (if anLookups a > 10 then reduceLookupsRecommendation # anRecommendations a
      else if anLookups a > 8 then anRecommendations a @ [optimizeRecommendation]
      else if anLookups a > 5 then anRecommendations a @ [monitorRecommendation (anLookups a)]
      else anRecommendations a)"
  by (simp_all add: spfLookupLimit_def)

lemma spfRecordLength_fields:
  "anLookups (spfRecordLength r a) = anLookups a"
  "\<exists>ws. anWarnings (spfRecordLength r a) = anWarnings a @ ws \<and> filter isLimitText ws = []"
  "\<exists>rs. anRecommendations (spfRecordLength r a) = anRecommendations a @ rs
        \<and> filter isLimitText rs = []"
  by (simp_all add: spfRecordLength_def isLimitText_def)

lemma spfIncludeLoop_fields:
  "anLookups (spfIncludeLoop ms dn a) = anLookups a"
  "\<exists>ws. anWarnings (spfIncludeLoop ms dn a) = anWarnings a @ ws \<and> filter isLimitText ws = []"
  "\<exists>rs. anRecommendations (spfIncludeLoop ms dn a) = anRecommendations a @ rs
        \<and> filter isLimitText rs = []"
  by (simp_all add: spfIncludeLoop_def isLimitText_def Let_def)

text \<open>The analysis is what the lookup-limit rules leave, followed by the texts of the later checks.\<close>

lemma analyzeSpfRecord_after_limit:
  "anLookups (analyzeSpfRecord r dn) = anLookups (spfBeforeLimit r)
   \<and> (\<exists>ws. anWarnings (analyzeSpfRecord r dn) =
          anWarnings (spfLookupLimit (spfBeforeLimit r)) @ ws \<and> filter isLimitText ws = [])
   \<and> (\<exists>rs. anRecommendations (analyzeSpfRecord r dn) =
          anRecommendations (spfLookupLimit (spfBeforeLimit r)) @ rs \<and> filter isLimitText rs = [])"
proof -
  let ?ms = "drop 1 (splitSpaces False r)"
  let ?a = "spfLookupLimit (spfBeforeLimit r)"
  let ?b = "spfRecordLength r ?a"
  have A: "analyzeSpfRecord r dn = spfIncludeLoop ?ms dn ?b"
    by (simp add: analyzeSpfRecord_def Let_def)
  obtain ws1 where w1: "anWarnings ?b = anWarnings ?a @ ws1" "filter isLimitText ws1 = []"
    using spfRecordLength_fields(2) [of r ?a] by blast
  obtain ws2 where w2: "anWarnings (spfIncludeLoop ?ms dn ?b) = anWarnings ?b @ ws2"
    "filter isLimitText ws2 = []"
    using spfIncludeLoop_fields(2) [of ?ms dn ?b] by blast
  obtain rs1 where r1: "anRecommendations ?b = anRecommendations ?a @ rs1"
    "filter isLimitText rs1 = []"
    using spfRecordLength_fields(3) [of r ?a] by blast
  obtain rs2 where r2: "anRecommendations (spfIncludeLoop ?ms dn ?b) = anRecommendations ?b @ rs2"
    "filter isLimitText rs2 = []"
    using spfIncludeLoop_fields(3) [of ?ms dn ?b] by blast
  have "anWarnings (analyzeSpfRecord r dn) = anWarnings ?a @ (ws1 @ ws2)"
    "filter isLimitText (ws1 @ ws2) = []"
    "anRecommendations (analyzeSpfRecord r dn) = anRecommendations ?a @ (rs1 @ rs2)"
    "filter isLimitText (rs1 @ rs2) = []"
    using w1 w2 r1 r2 by (simp_all add: A)
  moreover have "anLookups (analyzeSpfRecord r dn) = anLookups (spfBeforeLimit r)"
    by (simp add: A spfIncludeLoop_fields spfRecordLength_fields spfLookupLimit_fields)
  ultimately show ?thesis
    by blast
qed

text \<open>
  Claim C4, as amended. With \<open>n\<close> the lookup count of the analysis of a record: the
  lookup-limit texts among its warnings are the fatal warning alone when \<open>n > 10\<close>, the
  approaching-limit warning alone when \<open>8 < n \<le> 10\<close>, and none otherwise; those among its
  recommendations are the "Reduce DNS lookups" text alone when \<open>n > 10\<close>, the "Consider
  optimizing" text alone when \<open>8 < n \<le> 10\<close>, the monitoring note alone when \<open>5 < n \<le> 8\<close>,
  and none otherwise. When \<open>n > 10\<close> the fatal warning is the first warning and begins
  with "Fatal:", and the first recommendation begins with "Reduce DNS lookups"; in the
  two lower ranges the texts are appended to what the earlier rules produced.
\<close>

theorem lookup_limit_rules:
  "(let A = analyzeSpfRecord r dn; n = anLookups A in
      filter isLimitText (anWarnings A) =
        (if n > 10 then [fatalLookupWarning n]
         else if n > 8 then [approachingLimitWarning n]
         else [])
      \<and> filter isLimitText (anRecommendations A) =
        (if n > 10 then [reduceLookupsRecommendation]
         else if n > 8 then [optimizeRecommendation]
         else if n > 5 then [monitorRecommendation n]
         else [])
      \<and> (n > 10 \<longrightarrow>
           (\<exists>ws. anWarnings A = fatalLookupWarning n # ws)
           \<and> (\<exists>rs. anRecommendations A = reduceLookupsRecommendation # rs)
           \<and> startsWith (hd (anWarnings A)) ''Fatal:''
           \<and> startsWith (hd (anRecommendations A)) ''Reduce DNS lookups'')
      \<and> (8 < n \<and> n \<le> 10 \<longrightarrow>
           (\<exists>ws. anWarnings A =
              anWarnings (spfBeforeLimit r) @ [approachingLimitWarning n] @ ws)
           \<and> (\<exists>rs. anRecommendations A =
              anRecommendations (spfBeforeLimit r) @ [optimizeRecommendation] @ rs))
      \<and> (5 < n \<and> n \<le> 8 \<longrightarrow>
           (\<exists>ws. anWarnings A = anWarnings (spfBeforeLimit r) @ ws)
           \<and> (\<exists>rs. anRecommendations A =
              anRecommendations (spfBeforeLimit r) @ [monitorRecommendation n] @ rs)))"
proof -
  let ?A = "analyzeSpfRecord r dn"
  let ?p = "spfBeforeLimit r"
  let ?n = "anLookups ?p"
  obtain ws rs where n: "anLookups ?A = ?n"
    and w: "anWarnings ?A = anWarnings (spfLookupLimit ?p) @ ws" "filter isLimitText ws = []"
    and r: "anRecommendations ?A = anRecommendations (spfLookupLimit ?p) @ rs"
      "filter isLimitText rs = []"
    using analyzeSpfRecord_after_limit [of r dn] by blast
  have fw: "filter isLimitText (anWarnings ?A) =
        (if ?n > 10 then [fatalLookupWarning ?n]
         else if ?n > 8 then [approachingLimitWarning ?n]
         else [])"
    unfolding w(1) by (simp add: w(2) spfLookupLimit_fields spfBeforeLimit_limit_texts limit_texts)
  have fr: "filter isLimitText (anRecommendations ?A) =
        (if ?n > 10 then [reduceLookupsRecommendation]
         else if ?n > 8 then [optimizeRecommendation]
         else if ?n > 5 then [monitorRecommendation ?n]
         else [])"
    unfolding r(1) by (simp add: r(2) spfLookupLimit_fields spfBeforeLimit_limit_texts limit_texts)
  have high: "(\<exists>ws. anWarnings ?A = fatalLookupWarning ?n # ws)
           \<and> (\<exists>rs. anRecommendations ?A = reduceLookupsRecommendation # rs)
           \<and> startsWith (hd (anWarnings ?A)) ''Fatal:''
           \<and> startsWith (hd (anRecommendations ?A)) ''Reduce DNS lookups''"
    if "?n > 10"
    unfolding w(1) r(1) using that by (simp add: spfLookupLimit_fields limit_texts)
  have mid: "(\<exists>ws. anWarnings ?A = anWarnings ?p @ [approachingLimitWarning ?n] @ ws)
           \<and> (\<exists>rs. anRecommendations ?A = anRecommendations ?p @ [optimizeRecommendation] @ rs)"
    if "8 < ?n \<and> ?n \<le> 10"
    unfolding w(1) r(1) using that by (simp add: spfLookupLimit_fields)
  have low: "(\<exists>ws. anWarnings ?A = anWarnings ?p @ ws)
           \<and> (\<exists>rs. anRecommendations ?A = anRecommendations ?p @ [monitorRecommendation ?n] @ rs)"
    if "5 < ?n \<and> ?n \<le> 8"
    unfolding w(1) r(1) using that by (simp add: spfLookupLimit_fields)
  show ?thesis
    unfolding Let_def n using fw fr high mid low by blast
qed

lemma eleven_lookups:
  "anLookups (spfBeforeLimit
     ''v=spf1 a mx include:s1.example.net include:s2.example.net include:s3.example.net include:s4.example.net include:s5.example.net include:s6.example.net include:s7.example.net include:s8.example.net include:s9.example.net -all'') = 11"
  by code_simp

theorem lookup_limit_rules_witness:
  "anLookups (analyzeSpfRecord
     ''v=spf1 a mx include:s1.example.net include:s2.example.net include:s3.example.net include:s4.example.net include:s5.example.net include:s6.example.net include:s7.example.net include:s8.example.net include:s9.example.net -all''
     ''example.com'') = 11
   \<and> startsWith (hd (anWarnings (analyzeSpfRecord
     ''v=spf1 a mx include:s1.example.net include:s2.example.net include:s3.example.net include:s4.example.net include:s5.example.net include:s6.example.net include:s7.example.net include:s8.example.net include:s9.example.net -all''
     ''example.com''))) ''Fatal:''
   \<and> startsWith (hd (anRecommendations (analyzeSpfRecord
     ''v=spf1 a mx include:s1.example.net include:s2.example.net include:s3.example.net include:s4.example.net include:s5.example.net include:s6.example.net include:s7.example.net include:s8.example.net include:s9.example.net -all''
     ''example.com''))) ''Reduce DNS lookups''"
proof -
  let ?r = "''v=spf1 a mx include:s1.example.net include:s2.example.net include:s3.example.net include:s4.example.net include:s5.example.net include:s6.example.net include:s7.example.net include:s8.example.net include:s9.example.net -all''"
  have n: "anLookups (analyzeSpfRecord ?r ''example.com'') = 11"
    using analyzeSpfRecord_after_limit [of ?r "''example.com''"] eleven_lookups by simp
  from lookup_limit_rules [of ?r "''example.com''"] show ?thesis
    unfolding Let_def n by simp
qed

text \<open>
  With nine lookups the lookup-limit rules add a recommendation besides the
  approaching-limit warning.
\<close>

theorem lookup_limit_counterexample:
  "anLookups (analyzeSpfRecord
     ''v=spf1 a mx include:s1.example.net include:s2.example.net include:s3.example.net include:s4.example.net include:s5.example.net include:s6.example.net include:s7.example.net -all''
     ''example.com'') = 9
   \<and> anWarnings (analyzeSpfRecord
     ''v=spf1 a mx include:s1.example.net include:s2.example.net include:s3.example.net include:s4.example.net include:s5.example.net include:s6.example.net include:s7.example.net -all''
     ''example.com'') = [''Approaching DNS lookup limit: 9/10 lookups used.'']
   \<and> anRecommendations (analyzeSpfRecord
     ''v=spf1 a mx include:s1.example.net include:s2.example.net include:s3.example.net include:s4.example.net include:s5.example.net include:s6.example.net include:s7.example.net -all''
     ''example.com'') =
     [''Excellent: Using \"-all\" provides the strongest SPF protection.'',
      ''Using bare \"a\" mechanism. Consider specifying A records explicitly for better performance.'',
      ''Using bare \"mx\" mechanism. Consider specifying MX records explicitly for better performance.'',
      ''Consider optimizing your SPF record to reduce DNS lookups before hitting the limit.'']
   \<and> anRecommendations (spfBeforeLimit
     ''v=spf1 a mx include:s1.example.net include:s2.example.net include:s3.example.net include:s4.example.net include:s5.example.net include:s6.example.net include:s7.example.net -all'') =
     [''Excellent: Using \"-all\" provides the strongest SPF protection.'',
      ''Using bare \"a\" mechanism. Consider specifying A records explicitly for better performance.'',
      ''Using bare \"mx\" mechanism. Consider specifying MX records explicitly for better performance.'']"
  by code_simp

end

